theory Spec2Isabelle
  imports Complex_Main "HOL-Library.Word"
begin

section \<open>Data shared by the three pulse sketches\<close>

text \<open>
  The repository holds three pulse-monitor sketches for the ESP8266
  (\<^verbatim>\<open>src/unnamed/part_000\<close>, \<^verbatim>\<open>src/unnamed/part_001\<close> and
  \<^verbatim>\<open>src/health_monatring/health_monatring.ino\<close>) and one radar sketch.
  On the ESP8266 \<^verbatim>\<open>int\<close> and \<^verbatim>\<open>unsigned long\<close> are 32 bits wide: the values of
  \<^verbatim>\<open>millis()\<close> and the three time stamps are \<open>32 word\<close>, so that subtraction wraps as
  in the sketch. \<^verbatim>\<open>pulseValue\<close> and \<^verbatim>\<open>BPM\<close> are \<open>int\<close>: the first only ever holds
  the result of \<^verbatim>\<open>analogRead\<close>, the second a quotient that is read back as a signed
  32-bit number (\<open>sint\<close>). Floating-point sensor readings are values of a type
  parameter \<open>'f\<close>; the only arithmetic on them, the division by \<^verbatim>\<open>100.0F\<close>, is a
  parameter of the health-monitor loop.
\<close>

datatype 'f jval = JStr string | JInt int | JFloat 'f

type_synonym 'f json = "(string \<times> 'f jval) list"

datatype 'f sval = SStr string | SInt int | SFlt 'f

text \<open>
  What a sketch does to the outside, in program order. The last four constructors are
  used by the radar sketch only; a pin level is \<open>True\<close> for \<^verbatim>\<open>HIGH\<close>.
\<close>

datatype 'f event =
    Serial_print "'f sval"
  | Serial_println "'f sval"
  | Serial_printf string "'f sval list"
  | broadcastTXT "'f json"
  | sendTXT "8 word" "'f json"
  | delay nat
  | digitalWrite nat bool
  | delayMicroseconds nat
  | pulseIn nat bool
  | myservo_write int

text \<open>
  An integer division by zero is undefined behaviour in C++; on the ESP8266 it stops the
  sketch with an exception. It is the only way a loop iteration fails.
\<close>

datatype error = DivisionByZero

text \<open>No floating-point value occurs in \<^verbatim>\<open>part_000\<close> and \<^verbatim>\<open>part_001\<close>.\<close>

type_synonym plain_event = "unit event"

text \<open>
  The event types of the WebSockets library. The handlers have a case for three of them
  and do nothing for any other.
\<close>

datatype WStype_t =
    WStype_ERROR | WStype_DISCONNECTED | WStype_CONNECTED | WStype_TEXT | WStype_BIN
  | WStype_PING | WStype_PONG

text \<open>
  One call of the registered callback \<^verbatim>\<open>webSocketEvent(num, type, payload, length)\<close>.
  \<open>remoteIP\<close> is what \<^verbatim>\<open>webSocket.remoteIP(num)\<close> returns during that call.
\<close>

record ws_call =
  num :: "8 word"
  wstype :: WStype_t
  payload :: string
  remoteIP :: "int \<times> int \<times> int \<times> int"

text \<open>The globals of \<^verbatim>\<open>part_000\<close> and \<^verbatim>\<open>part_001\<close> (the same five in both).\<close>

record pulse_state =
  pulseValue :: int
  BPM :: int
  pulseDetected :: bool
  lastBeatTime :: "32 word"
  lastSerialPrintTime :: "32 word"

text \<open>The health monitor has the same five and three more.\<close>

record 'f health_state = pulse_state +
  temperature :: 'f
  pressure :: 'f
  lastEnvReadTime :: "32 word"

definition init_pulse :: pulse_state where
  "init_pulse =
     \<lparr>pulseValue = 0, BPM = 0, pulseDetected = False, lastBeatTime = 0,
      lastSerialPrintTime = 0\<rparr>"

definition init_health :: "'f \<Rightarrow> 'f health_state" where
  "init_health zero =
     \<lparr>pulseValue = 0, BPM = 0, pulseDetected = False, lastBeatTime = 0,
      lastSerialPrintTime = 0, temperature = zero, pressure = zero, lastEnvReadTime = 0\<rparr>"

text \<open>
  What one pass of \<^verbatim>\<open>loop()\<close> reads from the outside: the callbacks that
  \<^verbatim>\<open>webSocket.loop()\<close> dispatches, the analog sample, and one field for every place
  where the loop calls \<^verbatim>\<open>millis()\<close>, in program order. A read that a pass does not
  perform is not looked at. (\<^verbatim>\<open>server.handleClient()\<close> serves the HTML page; it touches
  no global and writes nothing to a WebSocket, and is left out.)
\<close>

record pulse_in =
  ws_events :: "ws_call list"
  analogRead_A0 :: int
  millis_print :: "32 word"
  millis_print_set :: "32 word"
  millis_bpm :: "32 word"
  millis_beat :: "32 word"
  millis_graph :: "32 word"

record 'f health_in = pulse_in +
  millis_env :: "32 word"
  millis_env_set :: "32 word"
  readTemperature :: 'f
  readPressure :: 'f

section \<open>The senders\<close>

definition sendPulseData :: "'a pulse_state_scheme \<Rightarrow> 'f event list" where
  "sendPulseData s =
     [broadcastTXT [(''type'', JStr ''pulse''), (''value'', JInt (pulseValue s)),
                    (''bpm'', JInt (BPM s))]]"

definition sendGraphData :: "'a pulse_state_scheme \<Rightarrow> 'f event list" where
  "sendGraphData s =
     [broadcastTXT [(''type'', JStr ''graph''), (''value'', JInt (pulseValue s))]]"

definition sendEnvData :: "'f health_state \<Rightarrow> 'f event list" where
  "sendEnvData s =
     [broadcastTXT [(''type'', JStr ''environment''), (''temp'', JFloat (temperature s)),
                    (''pressure'', JFloat (pressure s))]]"

section \<open>The pulse detection block\<close>

text \<open>
  The block under the comment \<^verbatim>\<open>Pulse detection algorithm\<close> is the same text in the
  three sketches (\<^verbatim>\<open>part_000\<close> builds the two JSON documents in place, the other two
  call \<^verbatim>\<open>sendPulseData()\<close> and \<^verbatim>\<open>sendGraphData()\<close>, which build the same documents).
  It runs after \<^verbatim>\<open>pulseValue = analogRead(A0)\<close>. The quotient is computed in
  \<^verbatim>\<open>unsigned long\<close> and converted to \<^verbatim>\<open>int\<close>.
\<close>

definition pulse_detection ::
  "'b pulse_in_scheme \<Rightarrow> 'a pulse_state_scheme \<Rightarrow> error + ('a pulse_state_scheme \<times> 'f event list)"
where
  "pulse_detection i s =
     (if pulseValue s > 600 then
        if \<not> pulseDetected s then
          let s1 = s\<lparr>pulseDetected := True\<rparr> in
          if lastBeatTime s1 > 0 then
            if millis_bpm i - lastBeatTime s1 = 0 then Inl DivisionByZero
            else
              let s2 = s1\<lparr>BPM := sint (60000 div (millis_bpm i - lastBeatTime s1))\<rparr>;
                  s3 = s2\<lparr>lastBeatTime := millis_beat i\<rparr>
              in Inr (s3, [Serial_print (SStr ''Beat detected! BPM: ''),
                           Serial_println (SInt (BPM s2))] @ sendPulseData s3)
          else
            let s3 = s1\<lparr>lastBeatTime := millis_beat i\<rparr>
            in Inr (s3, sendPulseData s3)
        else Inr (s, [])
      else
        let s1 = s\<lparr>pulseDetected := False\<rparr>
        in Inr (s1, if millis_graph i mod 50 = 0 then sendGraphData s1 else []))"

section \<open>\<^verbatim>\<open>part_000\<close>\<close>

definition webSocketEvent_000 :: "ws_call \<Rightarrow> pulse_state \<Rightarrow> plain_event list" where
  "webSocketEvent_000 c s =
     (case wstype c of
        WStype_DISCONNECTED \<Rightarrow>
          [Serial_printf (''[%u] Client disconnected'' @ [CHR 0x0A]) [SInt (uint (num c))]]
      | WStype_CONNECTED \<Rightarrow>
          (case remoteIP c of (ip0, ip1, ip2, ip3) \<Rightarrow>
             [Serial_printf (''[%u] Connection from %d.%d.%d.%d'' @ [CHR 0x0A])
                [SInt (uint (num c)), SInt ip0, SInt ip1, SInt ip2, SInt ip3],
              sendTXT (num c)
                [(''type'', JStr ''init''), (''bpm'', JInt (BPM s)),
                 (''value'', JInt (pulseValue s))]])
      | WStype_TEXT \<Rightarrow>
          [Serial_printf (''[%u] Received text: %s'' @ [CHR 0x0A])
             [SInt (uint (num c)), SStr (payload c)]]
      | _ \<Rightarrow> [])"

text \<open>
  The block under \<^verbatim>\<open>Print to Serial Monitor every 200ms\<close>, the same text in
  \<^verbatim>\<open>part_001\<close>.
\<close>

definition serial_report_000 :: "pulse_in \<Rightarrow> pulse_state \<Rightarrow> pulse_state \<times> plain_event list"
where
  "serial_report_000 i s =
     (if millis_print i - lastSerialPrintTime s > 200 then
        (s\<lparr>lastSerialPrintTime := millis_print_set i\<rparr>,
         [Serial_print (SStr ''Pulse Value: ''), Serial_print (SInt (pulseValue s)),
          Serial_print (SStr '' | BPM: ''), Serial_println (SInt (BPM s))])
      else (s, []))"

definition loop_part_000 :: "pulse_in \<Rightarrow> pulse_state \<Rightarrow> error + (pulse_state \<times> plain_event list)"
where
  "loop_part_000 i s =
     (let ws = concat (map (\<lambda>c. webSocketEvent_000 c s) (ws_events i));
          s1 = s\<lparr>pulseValue := analogRead_A0 i\<rparr>;
          (s2, pr) = serial_report_000 i s1
      in case pulse_detection i s2 of
           Inl e \<Rightarrow> Inl e
         | Inr (s3, pd) \<Rightarrow> Inr (s3, ws @ pr @ pd @ [delay 10]))"

section \<open>\<^verbatim>\<open>part_001\<close>\<close>

text \<open>
  The loop is the one of \<^verbatim>\<open>part_000\<close>; the handler sends the snapshot with
  \<^verbatim>\<open>sendPulseData()\<close>.
\<close>

definition webSocketEvent_001 :: "ws_call \<Rightarrow> pulse_state \<Rightarrow> plain_event list" where
  "webSocketEvent_001 c s =
     (case wstype c of
        WStype_DISCONNECTED \<Rightarrow>
          [Serial_printf (''[%u] Client disconnected'' @ [CHR 0x0A]) [SInt (uint (num c))]]
      | WStype_CONNECTED \<Rightarrow>
          (case remoteIP c of (ip0, ip1, ip2, ip3) \<Rightarrow>
             [Serial_printf (''[%u] Connection from %d.%d.%d.%d'' @ [CHR 0x0A])
                [SInt (uint (num c)), SInt ip0, SInt ip1, SInt ip2, SInt ip3]]
             @ sendPulseData s)
      | WStype_TEXT \<Rightarrow>
          [Serial_printf (''[%u] Received text: %s'' @ [CHR 0x0A])
             [SInt (uint (num c)), SStr (payload c)]]
      | _ \<Rightarrow> [])"

definition loop_part_001 :: "pulse_in \<Rightarrow> pulse_state \<Rightarrow> error + (pulse_state \<times> plain_event list)"
where
  "loop_part_001 i s =
     (let ws = concat (map (\<lambda>c. webSocketEvent_001 c s) (ws_events i));
          s1 = s\<lparr>pulseValue := analogRead_A0 i\<rparr>;
          (s2, pr) = serial_report_000 i s1
      in case pulse_detection i s2 of
           Inl e \<Rightarrow> Inl e
         | Inr (s3, pd) \<Rightarrow> Inr (s3, ws @ pr @ pd @ [delay 10]))"

section \<open>The health monitor\<close>

definition webSocketEvent_health :: "ws_call \<Rightarrow> 'f health_state \<Rightarrow> 'f event list" where
  "webSocketEvent_health c s =
     (case wstype c of
        WStype_DISCONNECTED \<Rightarrow>
          [Serial_printf (''[%u] Client disconnected'' @ [CHR 0x0A]) [SInt (uint (num c))]]
      | WStype_CONNECTED \<Rightarrow>
          (case remoteIP c of (ip0, ip1, ip2, ip3) \<Rightarrow>
             [Serial_printf (''[%u] Connection from %d.%d.%d.%d'' @ [CHR 0x0A])
                [SInt (uint (num c)), SInt ip0, SInt ip1, SInt ip2, SInt ip3]]
             @ sendPulseData s @ sendEnvData s)
      | WStype_TEXT \<Rightarrow>
          [Serial_printf (''[%u] Received text: %s'' @ [CHR 0x0A])
             [SInt (uint (num c)), SStr (payload c)]]
      | _ \<Rightarrow> [])"

text \<open>
  The environmental read. \<open>div100\<close> stands for the floating-point division
  \<^verbatim>\<open>bmp.readPressure() / 100.0F\<close>.
\<close>

definition env_read ::
  "('f \<Rightarrow> 'f) \<Rightarrow> 'f health_in \<Rightarrow> 'f health_state \<Rightarrow> 'f health_state \<times> 'f event list"
where
  "env_read div100 i s =
     (if millis_env i - lastEnvReadTime s > 2000 then
        let s1 = s\<lparr>temperature := readTemperature i\<rparr>;
            s2 = s1\<lparr>pressure := div100 (readPressure i)\<rparr>;
            s3 = s2\<lparr>lastEnvReadTime := millis_env_set i\<rparr>
        in (s3, sendEnvData s3)
      else (s, []))"

definition serial_report_health ::
  "'f health_in \<Rightarrow> 'f health_state \<Rightarrow> 'f health_state \<times> 'f event list"
where
  "serial_report_health i s =
     (if millis_print i - lastSerialPrintTime s > 200 then
        (s\<lparr>lastSerialPrintTime := millis_print_set i\<rparr>,
         [Serial_print (SStr ''Pulse: ''), Serial_print (SInt (pulseValue s)),
          Serial_print (SStr '' | BPM: ''), Serial_print (SInt (BPM s)),
          Serial_print (SStr '' | Temp: ''), Serial_print (SFlt (temperature s)),
          Serial_print (SStr ([CHR 0xC2, CHR 0xB0] @ ''C | Pressure: '')),
          Serial_print (SFlt (pressure s)), Serial_println (SStr ''hPa'')])
      else (s, []))"

definition loop_health ::
  "('f \<Rightarrow> 'f) \<Rightarrow> 'f health_in \<Rightarrow> 'f health_state \<Rightarrow> error + ('f health_state \<times> 'f event list)"
where
  "loop_health div100 i s =
     (let ws = concat (map (\<lambda>c. webSocketEvent_health c s) (ws_events i));
          s1 = s\<lparr>pulseValue := analogRead_A0 i\<rparr>;
          (s2, en) = env_read div100 i s1;
          (s3, pr) = serial_report_health i s2
      in case pulse_detection i s3 of
           Inl e \<Rightarrow> Inl e
         | Inr (s4, pd) \<Rightarrow> Inr (s4, ws @ en @ pr @ pd @ [delay 10]))"

section \<open>Running a sketch\<close>

text \<open>
  After \<^verbatim>\<open>setup()\<close> the Arduino core calls \<^verbatim>\<open>loop()\<close> again and again. \<open>run\<close> is a
  finite number of passes, one input per pass, stopping at the first failure.
\<close>

fun run :: "('i \<Rightarrow> 's \<Rightarrow> error + ('s \<times> 'o list)) \<Rightarrow> 'i list \<Rightarrow> 's \<Rightarrow> error + ('s \<times> 'o list)"
where
  "run step [] s = Inr (s, [])"
| "run step (i # is) s =
     (case step i s of
        Inl e \<Rightarrow> Inl e
      | Inr (s1, out) \<Rightarrow>
          (case run step is s1 of
             Inl e \<Rightarrow> Inl e
           | Inr (s2, outs) \<Rightarrow> Inr (s2, out @ outs)))"

definition final_state :: "error + ('s \<times> 'o) \<Rightarrow> 's option" where
  "final_state r = (case r of Inl e \<Rightarrow> None | Inr (s, out) \<Rightarrow> Some s)"

definition emitted :: "error + ('s \<times> 'o list) \<Rightarrow> 'o list" where
  "emitted r = (case r of Inl e \<Rightarrow> [] | Inr (s, out) \<Rightarrow> out)"

text \<open>The broadcasts whose document has a given \<^verbatim>\<open>"type"\<close>.\<close>

fun is_broadcast_of :: "string \<Rightarrow> 'f event \<Rightarrow> bool" where
  "is_broadcast_of ty (broadcastTXT doc) = (map_of doc ''type'' = Some (JStr ty))"
| "is_broadcast_of ty _ = False"

definition connected :: "'b pulse_in_scheme \<Rightarrow> ws_call list" where
  "connected i = filter (\<lambda>c. wstype c = WStype_CONNECTED) (ws_events i)"

text \<open>
  The passes of a run, started in \<open>s\<close>, none of which sees a rising edge (a sample above
  the threshold with the latch clear).
\<close>

fun no_edge ::
  "('b pulse_in_scheme \<Rightarrow> 'a pulse_state_scheme \<Rightarrow> error + ('a pulse_state_scheme \<times> 'o list)) \<Rightarrow>
   'b pulse_in_scheme list \<Rightarrow> 'a pulse_state_scheme \<Rightarrow> bool"
where
  "no_edge step [] s = True"
| "no_edge step (i # is) s =
     ((analogRead_A0 i \<le> 600 \<or> pulseDetected s) \<and>
      (case step i s of Inl e \<Rightarrow> True | Inr (s1, out) \<Rightarrow> no_edge step is s1))"

text \<open>
  The values \<^verbatim>\<open>millis()\<close> can return during one pass, and a clock that strictly
  advances from each pass to the next: every reading of the later pass is greater, as
  an unsigned 32-bit number, than every reading of the pass before it.
\<close>

definition reads_pulse :: "'b pulse_in_scheme \<Rightarrow> 32 word list" where
  "reads_pulse i =
     [millis_print i, millis_print_set i, millis_bpm i, millis_beat i, millis_graph i]"

definition reads_health :: "'f health_in \<Rightarrow> 32 word list" where
  "reads_health i = [millis_env i, millis_env_set i] @ reads_pulse i"

fun clock_advances :: "('i \<Rightarrow> 32 word list) \<Rightarrow> 'i list \<Rightarrow> bool" where
  "clock_advances rd (i # j # is) =
     ((\<forall>a \<in> set (rd i). \<forall>b \<in> set (rd j). a < b) \<and> clock_advances rd (j # is))"
| "clock_advances rd is = True"

section \<open>The radar sketch\<close>

text \<open>
  \<^verbatim>\<open>src/Ultrasonic-Radar-System-Arduino/sketch.ino\<close>. The conversion
  \<^verbatim>\<open>duration * 0.034 / 2\<close> is floating-point arithmetic whose result is truncated
  to \<^verbatim>\<open>int\<close>; it is the parameter \<open>to_cm\<close>. The results of \<^verbatim>\<open>pulseIn\<close> are the
  parameter \<open>echo\<close>: \<open>echo n\<close> is what the call number \<open>n\<close> of a pass returns.
\<close>

record radar_state =
  duration :: int
  distance :: int

definition trigPin :: nat where "trigPin = 2"

definition echoPin :: nat where "echoPin = 3"

definition calculateDistance ::
  "(int \<Rightarrow> int) \<Rightarrow> int \<Rightarrow> radar_state \<Rightarrow> int \<times> radar_state \<times> plain_event list"
where
  "calculateDistance to_cm e s =
     (let s1 = s\<lparr>duration := e\<rparr>;
          s2 = s1\<lparr>distance := to_cm (duration s1)\<rparr>
      in (distance s2, s2,
          [digitalWrite trigPin False, delayMicroseconds 2, digitalWrite trigPin True,
           delayMicroseconds 10, digitalWrite trigPin False, pulseIn echoPin True]))"

text \<open>The body of both \<^verbatim>\<open>for\<close> loops (the same text twice).\<close>

definition sweep_body ::
  "(int \<Rightarrow> int) \<Rightarrow> int \<Rightarrow> int \<Rightarrow> radar_state \<Rightarrow> radar_state \<times> plain_event list"
where
  "sweep_body to_cm e i s =
     (case calculateDistance to_cm e s of
        (d, s1, ev) \<Rightarrow>
          let s2 = s1\<lparr>distance := d\<rparr>
          in (s2, [myservo_write i, delay 15] @ ev @
                  [Serial_print (SInt i), Serial_print (SStr '',''),
                   Serial_print (SInt (distance s2)), Serial_print (SStr ''.'')]))"

function up_sweep ::
  "(int \<Rightarrow> int) \<Rightarrow> (nat \<Rightarrow> int) \<Rightarrow> int \<Rightarrow> nat \<Rightarrow> radar_state \<Rightarrow> nat \<times> radar_state \<times> plain_event list"
where
  "up_sweep to_cm echo i n s =
     (if i \<le> 165 then
        case sweep_body to_cm (echo n) i s of
          (s1, ev) \<Rightarrow>
            (case up_sweep to_cm echo (i + 1) (Suc n) s1 of
               (n2, s2, evs) \<Rightarrow> (n2, s2, ev @ evs))
      else (n, s, []))"
  by pat_completeness auto
termination
  by (relation "measure (\<lambda>(to_cm, echo, i, n, s). nat (166 - i))") auto

function down_sweep ::
  "(int \<Rightarrow> int) \<Rightarrow> (nat \<Rightarrow> int) \<Rightarrow> int \<Rightarrow> nat \<Rightarrow> radar_state \<Rightarrow> nat \<times> radar_state \<times> plain_event list"
where
  "down_sweep to_cm echo i n s =
     (if i \<ge> 15 then
        case sweep_body to_cm (echo n) i s of
          (s1, ev) \<Rightarrow>
            (case down_sweep to_cm echo (i - 1) (Suc n) s1 of
               (n2, s2, evs) \<Rightarrow> (n2, s2, ev @ evs))
      else (n, s, []))"
  by pat_completeness auto
termination
  by (relation "measure (\<lambda>(to_cm, echo, i, n, s). nat (i - 14))") auto

declare up_sweep.simps [simp del] down_sweep.simps [simp del]

definition loop_radar :: "(int \<Rightarrow> int) \<Rightarrow> (nat \<Rightarrow> int) \<Rightarrow> radar_state \<Rightarrow> radar_state \<times> plain_event list"
where
  "loop_radar to_cm echo s =
     (case up_sweep to_cm echo 15 0 s of
        (n1, s1, ev1) \<Rightarrow>
          (case down_sweep to_cm echo 165 n1 s1 of
             (n2, s2, ev2) \<Rightarrow> (s2, ev1 @ ev2)))"

text \<open>Three views of what a pass did.\<close>

fun servo_writes :: "'f event list \<Rightarrow> int list" where
  "servo_writes [] = []"
| "servo_writes (myservo_write a # evs) = a # servo_writes evs"
| "servo_writes (ev # evs) = servo_writes evs"

fun printed :: "'f event list \<Rightarrow> 'f sval list" where
  "printed [] = []"
| "printed (Serial_print v # evs) = v # printed evs"
| "printed (ev # evs) = printed evs"

fun write_or_measure :: "'f event \<Rightarrow> bool" where
  "write_or_measure (myservo_write a) = True"
| "write_or_measure (pulseIn p l) = True"
| "write_or_measure ev = False"

section \<open>Summaries used in the proofs\<close>

text \<open>
  The state in which the health monitor enters the pulse detection block, and what one
  pass of any of the three loops does to \<^verbatim>\<open>BPM\<close>, the latch and \<^verbatim>\<open>lastBeatTime\<close>
  (\<open>beat_summary\<close> is proved below to agree with each loop).
\<close>

definition before_detection ::
  "('f \<Rightarrow> 'f) \<Rightarrow> 'f health_in \<Rightarrow> 'f health_state \<Rightarrow> 'f health_state"
where
  "before_detection div100 i s =
     fst (serial_report_health i
            (fst (env_read div100 i (s\<lparr>pulseValue := analogRead_A0 i\<rparr>))))"

definition detector_vars ::
  "error + ('a pulse_state_scheme \<times> 'o) \<Rightarrow> error + (int \<times> bool \<times> 32 word)" where
  "detector_vars r =
     (case r of Inl e \<Rightarrow> Inl e
      | Inr (s, out) \<Rightarrow> Inr (BPM s, pulseDetected s, lastBeatTime s))"

definition beat_summary ::
  "'b pulse_in_scheme \<Rightarrow> 'a pulse_state_scheme \<Rightarrow> error + (int \<times> bool \<times> 32 word)" where
  "beat_summary i s =
     (if 600 < analogRead_A0 i then
        if \<not> pulseDetected s then
          if 0 < lastBeatTime s then
            if millis_bpm i = lastBeatTime s then Inl DivisionByZero
            else Inr (uint (60000 div (millis_bpm i - lastBeatTime s)), True, millis_beat i)
          else Inr (BPM s, True, millis_beat i)
        else Inr (BPM s, True, lastBeatTime s)
      else Inr (BPM s, False, lastBeatTime s))"

section \<open>Concrete passes\<close>

text \<open>
  A beat one tick after the clock read \<open>1000\<close>: the previous beat was at \<open>200\<close>, the
  division reads the clock at \<open>1000\<close>, the assignment at \<open>1001\<close>.
\<close>

definition beat_in :: pulse_in where
  "beat_in =
     \<lparr>ws_events = [], analogRead_A0 = 700, millis_print = 1000, millis_print_set = 1000,
      millis_bpm = 1000, millis_beat = 1001, millis_graph = 1001\<rparr>"

definition beat_state :: pulse_state where
  "beat_state =
     \<lparr>pulseValue = 512, BPM = 0, pulseDetected = False, lastBeatTime = 200,
      lastSerialPrintTime = 900\<rparr>"

definition beat_in_h :: "real health_in" where
  "beat_in_h =
     \<lparr>ws_events = [], analogRead_A0 = 700, millis_print = 1000, millis_print_set = 1000,
      millis_bpm = 1000, millis_beat = 1001, millis_graph = 1001,
      millis_env = 1000, millis_env_set = 1000, readTemperature = 36.5,
      readPressure = 101325\<rparr>"

definition beat_state_h :: "real health_state" where
  "beat_state_h =
     \<lparr>pulseValue = 512, BPM = 0, pulseDetected = False, lastBeatTime = 200,
      lastSerialPrintTime = 900, temperature = 36, pressure = 1013, lastEnvReadTime = 500\<rparr>"

text \<open>
  A first beat at clock 100, a pass with a low sample at 120, client number 0 connecting,
  a latched state after a beat, a beat that falls on the instant at
  which the 32-bit millisecond counter wraps to 0, and a pass on which the environmental
  read is due.
\<close>

definition first_beat_in :: pulse_in where
  "first_beat_in =
     \<lparr>ws_events = [], analogRead_A0 = 700, millis_print = 100, millis_print_set = 100,
      millis_bpm = 100, millis_beat = 100, millis_graph = 100\<rparr>"

definition rest_in :: pulse_in where
  "rest_in =
     \<lparr>ws_events = [], analogRead_A0 = 300, millis_print = 120, millis_print_set = 120,
      millis_bpm = 120, millis_beat = 120, millis_graph = 120\<rparr>"

definition first_beat_in_h :: "real health_in" where
  "first_beat_in_h =
     \<lparr>ws_events = [], analogRead_A0 = 700, millis_print = 100, millis_print_set = 100,
      millis_bpm = 100, millis_beat = 100, millis_graph = 100,
      millis_env = 100, millis_env_set = 100, readTemperature = 36.5,
      readPressure = 101325\<rparr>"

definition rest_in_h :: "real health_in" where
  "rest_in_h =
     \<lparr>ws_events = [], analogRead_A0 = 300, millis_print = 120, millis_print_set = 120,
      millis_bpm = 120, millis_beat = 120, millis_graph = 120,
      millis_env = 120, millis_env_set = 120, readTemperature = 36.5,
      readPressure = 101325\<rparr>"

definition new_client :: ws_call where
  "new_client = \<lparr>num = 0, wstype = WStype_CONNECTED, payload = [], remoteIP = (192, 168, 4, 2)\<rparr>"

definition first_beat_state :: pulse_state where
  "first_beat_state =
     \<lparr>pulseValue = 700, BPM = 0, pulseDetected = True, lastBeatTime = 100,
      lastSerialPrintTime = 0\<rparr>"

definition rested_state :: pulse_state where
  "rested_state =
     \<lparr>pulseValue = 300, BPM = 0, pulseDetected = False, lastBeatTime = 100,
      lastSerialPrintTime = 0\<rparr>"

definition first_beat_state_h :: "real health_state" where
  "first_beat_state_h =
     \<lparr>pulseValue = 700, BPM = 0, pulseDetected = True, lastBeatTime = 100,
      lastSerialPrintTime = 0, temperature = 0, pressure = 0, lastEnvReadTime = 0\<rparr>"

definition rested_state_h :: "real health_state" where
  "rested_state_h =
     \<lparr>pulseValue = 300, BPM = 0, pulseDetected = False, lastBeatTime = 100,
      lastSerialPrintTime = 0, temperature = 0, pressure = 0, lastEnvReadTime = 0\<rparr>"

definition idle_state :: pulse_state where
  "idle_state =
     \<lparr>pulseValue = 300, BPM = 0, pulseDetected = False, lastBeatTime = 0,
      lastSerialPrintTime = 4294967200\<rparr>"

definition wrap_beat_in :: pulse_in where
  "wrap_beat_in =
     \<lparr>ws_events = [], analogRead_A0 = 700, millis_print = 4294967295,
      millis_print_set = 4294967295, millis_bpm = 0, millis_beat = 0, millis_graph = 0\<rparr>"

definition wrapped_state :: pulse_state where
  "wrapped_state =
     \<lparr>pulseValue = 300, BPM = 0, pulseDetected = False, lastBeatTime = 0,
      lastSerialPrintTime = 120\<rparr>"

definition wrap_latched_state :: pulse_state where
  "wrap_latched_state =
     \<lparr>pulseValue = 700, BPM = 0, pulseDetected = True, lastBeatTime = 0,
      lastSerialPrintTime = 4294967200\<rparr>"

definition latched_state :: pulse_state where
  "latched_state =
     \<lparr>pulseValue = 700, BPM = 75, pulseDetected = True, lastBeatTime = 1001,
      lastSerialPrintTime = 1000\<rparr>"

definition hold_connect_in :: pulse_in where
  "hold_connect_in =
     \<lparr>ws_events = [new_client], analogRead_A0 = 700, millis_print = 1011,
      millis_print_set = 1011, millis_bpm = 1011, millis_beat = 1011, millis_graph = 1011\<rparr>"

definition latched_state_h :: "real health_state" where
  "latched_state_h =
     \<lparr>pulseValue = 700, BPM = 75, pulseDetected = True, lastBeatTime = 1001,
      lastSerialPrintTime = 1000, temperature = 36, pressure = 1013, lastEnvReadTime = 500\<rparr>"

definition rest_connect_in_h :: "real health_in" where
  "rest_connect_in_h =
     \<lparr>ws_events = [new_client], analogRead_A0 = 300, millis_print = 1011,
      millis_print_set = 1011, millis_bpm = 1011, millis_beat = 1011, millis_graph = 1011,
      millis_env = 1011, millis_env_set = 1011, readTemperature = 36.5,
      readPressure = 101325\<rparr>"

definition env_due_in_h :: "real health_in" where
  "env_due_in_h =
     \<lparr>ws_events = [], analogRead_A0 = 300, millis_print = 2600,
      millis_print_set = 2600, millis_bpm = 2601, millis_beat = 2601, millis_graph = 2601,
      millis_env = 2600, millis_env_set = 2600, readTemperature = 36.5,
      readPressure = 101325\<rparr>"

text \<open>
  What one step of a sweep emits, an echo that grows from step to step, and the
  conversion computed in exact integer arithmetic (used to run the radar sketch on a
  concrete input only).
\<close>

definition step_events :: "(int \<Rightarrow> int) \<Rightarrow> int \<Rightarrow> int \<Rightarrow> plain_event list" where
  "step_events to_cm e i =
     [myservo_write i, delay 15, digitalWrite trigPin False, delayMicroseconds 2,
      digitalWrite trigPin True, delayMicroseconds 10, digitalWrite trigPin False,
      pulseIn echoPin True, Serial_print (SInt i), Serial_print (SStr '',''),
      Serial_print (SInt (to_cm e)), Serial_print (SStr ''.'')]"

definition bench_echo :: "nat \<Rightarrow> int" where
  "bench_echo n = 1000 + int n"

definition bench_cm :: "int \<Rightarrow> int" where
  "bench_cm d = d * 17 div 1000"

section \<open>Facts about one pass\<close>

lemma quotient_le: "uint ((60000::32 word) div d) \<le> 60000"
proof -
  have "uint ((60000::32 word) div d) = 60000 div uint d" by (simp add: uint_div)
  also have "\<dots> \<le> 60000"
    by (cases "uint d = 0") (simp_all add: int_div_le_self)
  finally show ?thesis .
qed

lemma sint_quotient: "sint ((60000::32 word) div d) = uint ((60000::32 word) div d)"
proof -
  have "uint ((60000::32 word) div d) < 2 ^ 31" using quotient_le [of d] by simp
  moreover have "- (2 ^ 31) \<le> uint ((60000::32 word) div d)" 
    by (rule order_trans [of _ 0]) simp_all
  ultimately show ?thesis
    by (simp add: sint_uint signed_take_bit_int_eq_self)
qed

text \<open>The pulse detection block, case by case.\<close>

lemma detect_beat:
  assumes "600 < pulseValue s" "\<not> pulseDetected s" "0 < lastBeatTime s"
  shows "pulse_detection i s =
    (if millis_bpm i = lastBeatTime s then Inl DivisionByZero
     else Inr (s\<lparr>pulseDetected := True,
                 BPM := uint (60000 div (millis_bpm i - lastBeatTime s)),
                 lastBeatTime := millis_beat i\<rparr>,
               [Serial_print (SStr ''Beat detected! BPM: ''),
                Serial_println (SInt (uint (60000 div (millis_bpm i - lastBeatTime s)))),
                broadcastTXT [(''type'', JStr ''pulse''), (''value'', JInt (pulseValue s)),
                    (''bpm'', JInt (uint (60000 div (millis_bpm i - lastBeatTime s))))]]))"
  using assms by (simp add: pulse_detection_def Let_def sint_quotient sendPulseData_def)

lemma loop_000_unfold:
  "loop_part_000 i s =
     (case pulse_detection i (fst (serial_report_000 i (s\<lparr>pulseValue := analogRead_A0 i\<rparr>))) of
        Inl e \<Rightarrow> Inl e
      | Inr (s3, pd) \<Rightarrow>
          Inr (s3, concat (map (\<lambda>c. webSocketEvent_000 c s) (ws_events i)) @
                   snd (serial_report_000 i (s\<lparr>pulseValue := analogRead_A0 i\<rparr>)) @ pd @ [delay 10]))"
  by (simp add: loop_part_000_def Let_def case_prod_beta)

lemma loop_001_unfold:
  "loop_part_001 i s =
     (case pulse_detection i (fst (serial_report_000 i (s\<lparr>pulseValue := analogRead_A0 i\<rparr>))) of
        Inl e \<Rightarrow> Inl e
      | Inr (s3, pd) \<Rightarrow>
          Inr (s3, concat (map (\<lambda>c. webSocketEvent_001 c s) (ws_events i)) @
                   snd (serial_report_000 i (s\<lparr>pulseValue := analogRead_A0 i\<rparr>)) @ pd @ [delay 10]))"
  by (simp add: loop_part_001_def Let_def case_prod_beta)

lemma loop_health_unfold:
  "loop_health div100 i s =
     (case pulse_detection i (before_detection div100 i s) of
        Inl e \<Rightarrow> Inl e
      | Inr (s4, pd) \<Rightarrow>
          Inr (s4, concat (map (\<lambda>c. webSocketEvent_health c s) (ws_events i)) @
                   snd (env_read div100 i (s\<lparr>pulseValue := analogRead_A0 i\<rparr>)) @
                   snd (serial_report_health i (fst (env_read div100 i (s\<lparr>pulseValue := analogRead_A0 i\<rparr>)))) @
                   pd @ [delay 10]))"
  by (simp add: loop_health_def before_detection_def Let_def case_prod_beta)

lemma report_000_fields [simp]:
  "pulseValue (fst (serial_report_000 i s)) = pulseValue s"
  "BPM (fst (serial_report_000 i s)) = BPM s"
  "pulseDetected (fst (serial_report_000 i s)) = pulseDetected s"
  "lastBeatTime (fst (serial_report_000 i s)) = lastBeatTime s"
  by (simp_all add: serial_report_000_def)

lemma before_detection_fields [simp]:
  "pulseValue (before_detection d i s) = analogRead_A0 i"
  "BPM (before_detection d i s) = BPM s"
  "pulseDetected (before_detection d i s) = pulseDetected s"
  "lastBeatTime (before_detection d i s) = lastBeatTime s"
  by (simp_all add: before_detection_def serial_report_health_def env_read_def Let_def)

lemma detection_summary:
  "detector_vars (pulse_detection i s) =
     beat_summary (i\<lparr>analogRead_A0 := pulseValue s\<rparr>) s"
  by (simp add: detector_vars_def beat_summary_def pulse_detection_def Let_def sint_quotient
        word_neq_0_conv [symmetric] del: word_neq_0_conv)

lemma detector_vars_case:
  "detector_vars (case r of Inl e \<Rightarrow> Inl e | Inr (s, pd) \<Rightarrow> Inr (s, f pd)) = detector_vars r"
  by (simp add: detector_vars_def split: sum.splits)

lemma summary_000: "detector_vars (loop_part_000 i s) = beat_summary i s"
  by (simp add: loop_000_unfold detector_vars_case detection_summary beat_summary_def)

lemma summary_001: "detector_vars (loop_part_001 i s) = beat_summary i s"
  by (simp add: loop_001_unfold detector_vars_case detection_summary beat_summary_def)

lemma summary_health: "detector_vars (loop_health div100 i s) = beat_summary i s"
  by (simp add: loop_health_unfold detector_vars_case detection_summary beat_summary_def)

lemma step_fails:
  assumes "\<And>i s. detector_vars (step i s) = beat_summary i s"
  shows "(step i s = Inl e) =
         (600 < analogRead_A0 i \<and> \<not> pulseDetected s \<and> 0 < lastBeatTime s \<and>
          millis_bpm i = lastBeatTime s)"
  using assms [of i s] 
  by (cases "step i s"; cases e) (auto simp: detector_vars_def beat_summary_def split: if_splits)

lemma step_edge:
  assumes "\<And>i s. detector_vars (step i s) = beat_summary i s"
      and "step i s = Inr (s', out)" "600 < analogRead_A0 i" "\<not> pulseDetected s"
  shows "pulseDetected s' \<and> lastBeatTime s' = millis_beat i \<and>
         BPM s' = (if 0 < lastBeatTime s then uint (60000 div (millis_bpm i - lastBeatTime s))
                   else BPM s)"
  using assms(1) [of i s] assms(2-)
  by (auto simp: detector_vars_def beat_summary_def split: if_splits)

lemma step_no_edge:
  assumes "\<And>i s. detector_vars (step i s) = beat_summary i s"
      and "step i s = Inr (s', out)" "analogRead_A0 i \<le> 600 \<or> pulseDetected s"
  shows "BPM s' = BPM s \<and> lastBeatTime s' = lastBeatTime s \<and>
         pulseDetected s' = (600 < analogRead_A0 i)"
  using assms(1) [of i s] assms(2-)
  by (auto simp: detector_vars_def beat_summary_def split: if_splits)

lemma run_snoc:
  "run step (ins @ [i]) s =
     (case run step ins s of
        Inl e \<Rightarrow> Inl e
      | Inr (s1, out) \<Rightarrow>
          (case step i s1 of Inl e \<Rightarrow> Inl e | Inr (s2, o2) \<Rightarrow> Inr (s2, out @ o2)))"
  by (induction ins arbitrary: s) (auto split: sum.splits)

lemma run_snoc_Inr:
  assumes "run step (ins @ [i]) s = Inr (s2, out)"
  obtains s1 o1 o2 where "run step ins s = Inr (s1, o1)" "step i s1 = Inr (s2, o2)" "out = o1 @ o2"
  using assms by (auto simp: run_snoc split: sum.splits)

lemma beat_origin:
  assumes sm: "\<And>i s. detector_vars (step i s) = beat_summary i s"
      and "run step ins s0 = Inr (s, out)" "lastBeatTime s0 = 0"
  shows "lastBeatTime s = 0 \<or>
         (\<exists>p k mid sk ok. ins = p @ k # mid \<and> run step p s0 = Inr (sk, ok) \<and>
            600 < analogRead_A0 k \<and> \<not> pulseDetected sk \<and> lastBeatTime s = millis_beat k \<and>
            (pulseDetected s \<or> (\<exists>j \<in> set mid. analogRead_A0 j \<le> 600)))"
  using assms(2)
proof (induction ins arbitrary: s out rule: rev_induct)
  case Nil
  then show ?case using assms(3) by simp
next
  case (snoc i ins)
  from snoc.prems obtain s1 o1 o2 where
    r1: "run step ins s0 = Inr (s1, o1)" and st: "step i s1 = Inr (s, o2)"
    by (rule run_snoc_Inr)
  show ?case
  proof (cases "600 < analogRead_A0 i \<and> \<not> pulseDetected s1")
    case True
    with step_edge [OF sm st] have "pulseDetected s" "lastBeatTime s = millis_beat i" by auto
    with True r1 have
      "ins @ [i] = ins @ i # [] \<and> run step ins s0 = Inr (s1, o1) \<and>
       600 < analogRead_A0 i \<and> \<not> pulseDetected s1 \<and> lastBeatTime s = millis_beat i \<and>
       (pulseDetected s \<or> (\<exists>j \<in> set []. analogRead_A0 j \<le> 600))"
      by simp
    then show ?thesis by blast
  next
    case False
    then have ne: "analogRead_A0 i \<le> 600 \<or> pulseDetected s1" by auto
    from step_no_edge [OF sm st ne] have
      keep: "lastBeatTime s = lastBeatTime s1" "pulseDetected s = (600 < analogRead_A0 i)" by auto
    from snoc.IH [OF r1] show ?thesis
    proof
      assume "lastBeatTime s1 = 0"
      with keep show ?thesis by simp
    next
      assume "\<exists>p k mid sk ok. ins = p @ k # mid \<and> run step p s0 = Inr (sk, ok) \<and>
            600 < analogRead_A0 k \<and> \<not> pulseDetected sk \<and> lastBeatTime s1 = millis_beat k \<and>
            (pulseDetected s1 \<or> (\<exists>j \<in> set mid. analogRead_A0 j \<le> 600))"
      then obtain p k mid sk ok where
        d: "ins = p @ k # mid" "run step p s0 = Inr (sk, ok)" "600 < analogRead_A0 k"
           "\<not> pulseDetected sk" "lastBeatTime s1 = millis_beat k"
           "pulseDetected s1 \<or> (\<exists>j \<in> set mid. analogRead_A0 j \<le> 600)"
        by blast
      have "pulseDetected s \<or> (\<exists>j \<in> set (mid @ [i]). analogRead_A0 j \<le> 600)"
        using keep(2) by (cases "600 < analogRead_A0 i") auto
      with d keep(1) have
        "ins @ [i] = p @ k # (mid @ [i]) \<and> run step p s0 = Inr (sk, ok) \<and>
         600 < analogRead_A0 k \<and> \<not> pulseDetected sk \<and> lastBeatTime s = millis_beat k \<and>
         (pulseDetected s \<or> (\<exists>j \<in> set (mid @ [i]). analogRead_A0 j \<le> 600))"
        by simp
      then show ?thesis by blast
    qed
  qed
qed

lemma clock_advances_tl: "clock_advances rd (x # xs) \<Longrightarrow> clock_advances rd xs"
  by (cases xs) simp_all

lemma clock_advances_suffix: "clock_advances rd (xs @ ys) \<Longrightarrow> clock_advances rd ys"
  by (induction xs) (auto dest: clock_advances_tl)

lemma clock_advances_prefix: "clock_advances rd (xs @ ys) \<Longrightarrow> clock_advances rd xs"
  by (induction rd xs rule: clock_advances.induct) auto

lemma clock_advances_later:
  assumes "\<And>x. rd x \<noteq> []"
  shows "clock_advances rd (k # mid @ [i]) \<Longrightarrow> a \<in> set (rd k) \<Longrightarrow> b \<in> set (rd i) \<Longrightarrow> a < b"
proof (induction mid arbitrary: k a)
  case Nil
  then show ?case by simp
next
  case (Cons j rest)
  from assms [of j] obtain c where c: "c \<in> set (rd j)" by (cases "rd j") auto
  from Cons.prems c have "a < c" by simp
  moreover from Cons.prems have "clock_advances rd (j # rest @ [i])" by simp
  from Cons.IH [OF this c Cons.prems(3)] have "c < b" .
  ultimately show ?case by simp
qed

section \<open>Facts about runs and about what a pass emits\<close>

lemma last_beat_before:
  assumes sm: "\<And>i s. detector_vars (step i s) = beat_summary i s"
      and rd: "\<And>x. millis_beat x \<in> set (rd x)" "\<And>x. millis_bpm x \<in> set (rd x)"
      and "clock_advances rd (ins @ [m])" "run step ins s0 = Inr (s, out)"
          "lastBeatTime s0 = 0" "0 < lastBeatTime s"
  shows "lastBeatTime s < millis_bpm m"
proof -
  from beat_origin [OF sm assms(5,6)] assms(7) obtain p k mid where
    d: "ins = p @ k # mid" "lastBeatTime s = millis_beat k" by auto
  from assms(4) d(1) have "clock_advances rd (p @ (k # mid @ [m]))" by simp
  then have c: "clock_advances rd (k # mid @ [m])" by (rule clock_advances_suffix)
  have ne: "rd x \<noteq> []" for x using rd(1) [of x] by auto
  have "millis_beat k < millis_bpm m"
    by (rule clock_advances_later [OF ne c rd(1) rd(2)])
  with d(2) show ?thesis by simp
qed

lemma run_never_fails:
  assumes sm: "\<And>i s. detector_vars (step i s) = beat_summary i s"
      and rd: "\<And>x. millis_beat x \<in> set (rd x)" "\<And>x. millis_bpm x \<in> set (rd x)"
      and z: "lastBeatTime s0 = 0"
  shows "clock_advances rd ins \<Longrightarrow> \<exists>s out. run step ins s0 = Inr (s, out)"
proof (induction ins rule: rev_induct)
  case Nil
  show ?case by simp
next
  case (snoc m ins)
  from snoc.prems have "clock_advances rd ins" by (rule clock_advances_prefix)
  with snoc.IH obtain s out where r: "run step ins s0 = Inr (s, out)" by blast
  have "step m s \<noteq> Inl e" for e
  proof
    assume "step m s = Inl e"
    then have "0 < lastBeatTime s" "millis_bpm m = lastBeatTime s"
      by (simp_all add: step_fails [OF sm])
    with last_beat_before [OF sm rd snoc.prems r z] show False by simp
  qed
  then obtain s' o' where "step m s = Inr (s', o')" by (cases "step m s") auto
  with r show ?case by (simp add: run_snoc)
qed

lemma division_safe:
  assumes sm: "\<And>i s. detector_vars (step i s) = beat_summary i s"
      and rd: "\<And>x. millis_beat x \<in> set (rd x)" "\<And>x. millis_bpm x \<in> set (rd x)"
      and z: "lastBeatTime s0 = 0"
  shows "(clock_advances rd ins \<longrightarrow> (\<exists>s out. run step ins s0 = Inr (s, out))) \<and>
         (run step ins s0 = Inr (s, out) \<and> 600 < analogRead_A0 m \<and> \<not> pulseDetected s \<and>
          0 < lastBeatTime s \<longrightarrow>
            (\<exists>p k mid sk ok. ins = p @ k # mid \<and> run step p s0 = Inr (sk, ok) \<and>
               600 < analogRead_A0 k \<and> \<not> pulseDetected sk \<and> lastBeatTime s = millis_beat k \<and>
               (\<exists>j \<in> set mid. analogRead_A0 j \<le> 600)) \<and>
            (clock_advances rd (ins @ [m]) \<longrightarrow> millis_bpm m - lastBeatTime s \<noteq> 0))"
proof (intro conjI impI)
  assume "clock_advances rd ins"
  then show "\<exists>s out. run step ins s0 = Inr (s, out)" by (rule run_never_fails [OF sm rd z])
next
  assume a: "run step ins s0 = Inr (s, out) \<and> 600 < analogRead_A0 m \<and> \<not> pulseDetected s \<and>
          0 < lastBeatTime s"
  with beat_origin [OF sm _ z, of ins s out]
  show "\<exists>p k mid sk ok. ins = p @ k # mid \<and> run step p s0 = Inr (sk, ok) \<and>
               600 < analogRead_A0 k \<and> \<not> pulseDetected sk \<and> lastBeatTime s = millis_beat k \<and>
               (\<exists>j \<in> set mid. analogRead_A0 j \<le> 600)"
    by auto
next
  assume a: "run step ins s0 = Inr (s, out) \<and> 600 < analogRead_A0 m \<and> \<not> pulseDetected s \<and>
          0 < lastBeatTime s" and c: "clock_advances rd (ins @ [m])"
  from last_beat_before [OF sm rd c _ z, of s out] a show "millis_bpm m - lastBeatTime s \<noteq> 0"
    by auto
qed

lemma reads_pulse_members:
  "millis_beat x \<in> set (reads_pulse x)" "millis_bpm x \<in> set (reads_pulse x)"
  by (simp_all add: reads_pulse_def)

lemma reads_health_members:
  "millis_beat x \<in> set (reads_health x)" "millis_bpm x \<in> set (reads_health x)"
  by (simp_all add: reads_health_def reads_pulse_def)

lemma step_result:
  assumes sm: "\<And>i s. detector_vars (step i s) = beat_summary i s"
  shows "step i s = Inl DivisionByZero \<or> (\<exists>s' out. step i s = Inr (s', out))"
proof (cases "step i s")
  case (Inl e)
  then show ?thesis by (cases e) simp
next
  case (Inr r)
  then show ?thesis by (cases r) simp
qed

lemma step_succeeds:
  assumes sm: "\<And>i s. detector_vars (step i s) = beat_summary i s"
      and "\<not> (600 < analogRead_A0 i \<and> \<not> pulseDetected s \<and> 0 < lastBeatTime s \<and>
              millis_bpm i = lastBeatTime s)"
  shows "\<exists>s' out. step i s = Inr (s', out)"
  using step_result [OF sm, of i s] step_fails [OF sm, of i s DivisionByZero] assms(2) by blast

lemma quiet_run_keeps:
  assumes sm: "\<And>i s. detector_vars (step i s) = beat_summary i s"
  shows "run step mid s1 = Inr (s2, o2) \<Longrightarrow> no_edge step mid s1 \<Longrightarrow>
         BPM s2 = BPM s1 \<and> lastBeatTime s2 = lastBeatTime s1"
proof (induction mid arbitrary: s1 o2)
  case Nil
  then show ?case by simp
next
  case (Cons i mid)
  from Cons.prems(1) obtain sa oa ob where
    st: "step i s1 = Inr (sa, oa)" and r: "run step mid sa = Inr (s2, ob)"
    by (auto split: sum.splits)
  from Cons.prems(2) st have q: "analogRead_A0 i \<le> 600 \<or> pulseDetected s1" "no_edge step mid sa"
    by auto
  from step_no_edge [OF sm st q(1)] Cons.IH [OF r q(2)] show ?case by simp
qed

lemma first_beat_generic:
  assumes sm: "\<And>i s. detector_vars (step i s) = beat_summary i s"
  shows
   "(600 < analogRead_A0 i \<and> \<not> pulseDetected s \<and> lastBeatTime s = 0 \<longrightarrow>
       (\<exists>s1 o1. step i s = Inr (s1, o1) \<and> BPM s1 = BPM s \<and> lastBeatTime s1 = millis_beat i)) \<and>
    (600 < analogRead_A0 i \<and> \<not> pulseDetected s \<and> lastBeatTime s = 0 \<and>
     step i s = Inr (s1, o1) \<and> no_edge step mid s1 \<and> run step mid s1 = Inr (s2, o2) \<and>
     600 < analogRead_A0 m \<and> \<not> pulseDetected s2 \<longrightarrow>
       (if millis_beat i = 0 then \<exists>s3 o3. step m s2 = Inr (s3, o3) \<and> BPM s3 = BPM s
        else if millis_bpm m = millis_beat i then step m s2 = Inl DivisionByZero
        else \<exists>s3 o3. step m s2 = Inr (s3, o3) \<and>
               BPM s3 = uint (60000 div (millis_bpm m - millis_beat i))))"
proof (intro conjI impI)
  assume a: "600 < analogRead_A0 i \<and> \<not> pulseDetected s \<and> lastBeatTime s = 0"
  with step_succeeds [OF sm, of i s] obtain s1 o1 where st: "step i s = Inr (s1, o1)" by auto
  from step_edge [OF sm st] a have "BPM s1 = BPM s \<and> lastBeatTime s1 = millis_beat i" by simp
  with st show "\<exists>s1 o1. step i s = Inr (s1, o1) \<and> BPM s1 = BPM s \<and> lastBeatTime s1 = millis_beat i"
    by blast
next
  assume a: "600 < analogRead_A0 i \<and> \<not> pulseDetected s \<and> lastBeatTime s = 0 \<and>
     step i s = Inr (s1, o1) \<and> no_edge step mid s1 \<and> run step mid s1 = Inr (s2, o2) \<and>
     600 < analogRead_A0 m \<and> \<not> pulseDetected s2"
  then have st: "step i s = Inr (s1, o1)" and r: "run step mid s1 = Inr (s2, o2)"
    and q: "no_edge step mid s1" by auto
  from step_edge [OF sm st] a have s1: "BPM s1 = BPM s" "lastBeatTime s1 = millis_beat i" by auto
  from quiet_run_keeps [OF sm r q] s1 have
    s2: "BPM s2 = BPM s" "lastBeatTime s2 = millis_beat i" by auto
  show "if millis_beat i = 0 then \<exists>s3 o3. step m s2 = Inr (s3, o3) \<and> BPM s3 = BPM s
        else if millis_bpm m = millis_beat i then step m s2 = Inl DivisionByZero
        else \<exists>s3 o3. step m s2 = Inr (s3, o3) \<and>
               BPM s3 = uint (60000 div (millis_bpm m - millis_beat i))"
  proof (cases "millis_beat i = 0")
    case True
    with s2 step_succeeds [OF sm, of m s2] obtain s3 o3 where st3: "step m s2 = Inr (s3, o3)"
      by auto
    from step_edge [OF sm st3] a s2 True have "BPM s3 = BPM s" by simp
    with st3 True show ?thesis by auto
  next
    case False
    then have pos: "0 < lastBeatTime s2" using s2 by (simp add: word_neq_0_conv)
    show ?thesis
    proof (cases "millis_bpm m = millis_beat i")
      case True
      with a s2 pos step_fails [OF sm, of m s2 DivisionByZero] False show ?thesis by simp
    next
      case ne: False
      with s2 step_succeeds [OF sm, of m s2] obtain s3 o3 where st3: "step m s2 = Inr (s3, o3)"
        by auto
      from step_edge [OF sm st3] a s2 pos
      have "BPM s3 = uint (60000 div (millis_bpm m - millis_beat i))" by simp
      with st3 False ne show ?thesis by auto
    qed
  qed
qed






lemma handler_health_envs:
  "filter (is_broadcast_of ''environment'') (concat (map (\<lambda>c. webSocketEvent_health c s) cs)) =
     concat (map (\<lambda>c. sendEnvData s) (filter (\<lambda>c. wstype c = WStype_CONNECTED) cs))"
  by (induction cs)
     (auto simp: webSocketEvent_health_def sendPulseData_def sendEnvData_def
           split: WStype_t.splits prod.splits)


lemma report_health_no_broadcast:
  "filter (is_broadcast_of ty) (snd (serial_report_health i s)) = []"
  by (simp add: serial_report_health_def)

lemma env_read_broadcasts:
  "filter (is_broadcast_of ''pulse'') (snd (env_read d i s)) = []"
  "filter (is_broadcast_of ''graph'') (snd (env_read d i s)) = []"
  "filter (is_broadcast_of ''environment'') (snd (env_read d i s)) =
     (if 2000 < millis_env i - lastEnvReadTime s then sendEnvData (fst (env_read d i s)) else [])"
  by (simp_all add: env_read_def sendEnvData_def Let_def)



lemma detection_envs:
  assumes "pulse_detection i s = Inr (s', out)"
  shows "filter (is_broadcast_of ''environment'') out = []"
  using assms
  by (auto simp: pulse_detection_def Let_def sendPulseData_def sendGraphData_def split: if_splits)



lemma loop_health_Inr:
  assumes "loop_health d i s = Inr (s', out)"
  obtains pd where
    "pulse_detection i (before_detection d i s) = Inr (s', pd)"
    "out = concat (map (\<lambda>c. webSocketEvent_health c s) (ws_events i)) @
           snd (env_read d i (s\<lparr>pulseValue := analogRead_A0 i\<rparr>)) @
           snd (serial_report_health i (fst (env_read d i (s\<lparr>pulseValue := analogRead_A0 i\<rparr>)))) @
           pd @ [delay 10]"
  using assms by (auto simp: loop_health_unfold split: sum.splits)












lemma detection_keeps_env:
  fixes s :: "'f health_state"
  assumes "pulse_detection i s = Inr (s', out)"
  shows "temperature s' = temperature s \<and> pressure s' = pressure s \<and>
         lastEnvReadTime s' = lastEnvReadTime s"
  using assms by (auto simp: pulse_detection_def Let_def split: if_splits)

lemma before_detection_env:
  "temperature (before_detection d i s) =
     (if 2000 < millis_env i - lastEnvReadTime s then readTemperature i else temperature s)"
  "pressure (before_detection d i s) =
     (if 2000 < millis_env i - lastEnvReadTime s then d (readPressure i) else pressure s)"
  "lastEnvReadTime (before_detection d i s) =
     (if 2000 < millis_env i - lastEnvReadTime s then millis_env_set i else lastEnvReadTime s)"
  by (simp_all add: before_detection_def serial_report_health_def env_read_def Let_def)

lemma env_read_fields:
  "temperature (fst (env_read d i s)) =
     (if 2000 < millis_env i - lastEnvReadTime s then readTemperature i else temperature s)"
  "pressure (fst (env_read d i s)) =
     (if 2000 < millis_env i - lastEnvReadTime s then d (readPressure i) else pressure s)"
  by (simp_all add: env_read_def Let_def)

section \<open>Facts about the radar sweeps\<close>

lemma sweep_body_events:
  "snd (sweep_body to_cm e i s) =
     [myservo_write i, delay 15, digitalWrite trigPin False, delayMicroseconds 2,
      digitalWrite trigPin True, delayMicroseconds 10, digitalWrite trigPin False,
      pulseIn echoPin True, Serial_print (SInt i), Serial_print (SStr '',''),
      Serial_print (SInt (to_cm e)), Serial_print (SStr ''.'')]"
  by (simp add: sweep_body_def calculateDistance_def Let_def)

lemma up_sweep_step:
  assumes "i \<le> 165"
  shows "up_sweep to_cm echo i n s =
     (case up_sweep to_cm echo (i + 1) (Suc n) (fst (sweep_body to_cm (echo n) i s)) of
        (n2, s2, evs) \<Rightarrow> (n2, s2, step_events to_cm (echo n) i @ evs))"
  using assms sweep_body_events [of to_cm "echo n" i s]
  by (subst up_sweep.simps) (simp add: case_prod_beta step_events_def)

lemma down_sweep_step:
  assumes "15 \<le> i"
  shows "down_sweep to_cm echo i n s =
     (case down_sweep to_cm echo (i - 1) (Suc n) (fst (sweep_body to_cm (echo n) i s)) of
        (n2, s2, evs) \<Rightarrow> (n2, s2, step_events to_cm (echo n) i @ evs))"
  using assms sweep_body_events [of to_cm "echo n" i s]
  by (subst down_sweep.simps) (simp add: case_prod_beta step_events_def)

lemma up_sweep_events:
  "snd (snd (up_sweep to_cm echo i n s)) =
     concat (map (\<lambda>a. step_events to_cm (echo (n + nat (a - i))) a) [i..165])"
proof (induction to_cm echo i n s rule: up_sweep.induct)
  case (1 to_cm echo i n s)
  show ?case
  proof (cases "i \<le> 165")
    case False
    then show ?thesis by (subst up_sweep.simps) simp
  next
    case True
    let ?s1 = "fst (sweep_body to_cm (echo n) i s)"
    have "snd (snd (up_sweep to_cm echo (i + 1) (Suc n) ?s1)) =
          concat (map (\<lambda>a. step_events to_cm (echo (Suc n + nat (a - (i + 1)))) a) [i + 1..165])"
      by (rule "1.IH" [OF True surjective_pairing [symmetric]])
    also have "\<dots> = concat (map (\<lambda>a. step_events to_cm (echo (n + nat (a - i))) a) [i + 1..165])"
    proof (rule arg_cong [where f = concat], rule map_cong [OF refl])
      fix a assume "a \<in> set [i + 1..165]"
      then have "Suc n + nat (a - (i + 1)) = n + nat (a - i)" by auto
      then show "step_events to_cm (echo (Suc n + nat (a - (i + 1)))) a =
                 step_events to_cm (echo (n + nat (a - i))) a" by (rule arg_cong)
    qed
    finally have rest: "snd (snd (up_sweep to_cm echo (i + 1) (Suc n) ?s1)) =
        concat (map (\<lambda>a. step_events to_cm (echo (n + nat (a - i))) a) [i + 1..165])" .
    have "[i..165] = i # [i + 1..165]" using True by (simp add: upto_rec1)
    then show ?thesis
      by (simp add: up_sweep_step [OF True] case_prod_beta rest)
  qed
qed

lemma up_sweep_count:
  "fst (up_sweep to_cm echo i n s) = n + nat (166 - i)"
proof (induction to_cm echo i n s rule: up_sweep.induct)
  case (1 to_cm echo i n s)
  show ?case
  proof (cases "i \<le> 165")
    case False
    then show ?thesis by (subst up_sweep.simps) simp
  next
    case True
    have "fst (up_sweep to_cm echo (i + 1) (Suc n) (fst (sweep_body to_cm (echo n) i s))) =
          Suc n + nat (166 - (i + 1))"
      by (rule "1.IH" [OF True surjective_pairing [symmetric]])
    with True show ?thesis
      by (simp add: up_sweep_step [OF True] case_prod_beta)
  qed
qed

lemma down_sweep_events:
  "snd (snd (down_sweep to_cm echo i n s)) =
     concat (map (\<lambda>a. step_events to_cm (echo (n + nat (i - a))) a) (rev [15..i]))"
proof (induction to_cm echo i n s rule: down_sweep.induct)
  case (1 to_cm echo i n s)
  show ?case
  proof (cases "15 \<le> i")
    case False
    then show ?thesis by (subst down_sweep.simps) simp
  next
    case True
    let ?s1 = "fst (sweep_body to_cm (echo n) i s)"
    have "snd (snd (down_sweep to_cm echo (i - 1) (Suc n) ?s1)) =
          concat (map (\<lambda>a. step_events to_cm (echo (Suc n + nat (i - 1 - a))) a) (rev [15..i - 1]))"
      by (rule "1.IH" [OF True surjective_pairing [symmetric]])
    also have "\<dots> = concat (map (\<lambda>a. step_events to_cm (echo (n + nat (i - a))) a) (rev [15..i - 1]))"
    proof (rule arg_cong [where f = concat], rule map_cong [OF refl])
      fix a assume "a \<in> set (rev [15..i - 1])"
      then have "Suc n + nat (i - 1 - a) = n + nat (i - a)" by auto
      then show "step_events to_cm (echo (Suc n + nat (i - 1 - a))) a =
                 step_events to_cm (echo (n + nat (i - a))) a" by (rule arg_cong)
    qed
    finally have rest: "snd (snd (down_sweep to_cm echo (i - 1) (Suc n) ?s1)) =
        concat (map (\<lambda>a. step_events to_cm (echo (n + nat (i - a))) a) (rev [15..i - 1]))" .
    have "[15..i] = [15..i - 1] @ [i]" using True by (simp add: upto_rec2)
    then show ?thesis
      by (simp add: down_sweep_step [OF True] case_prod_beta rest)
  qed
qed

lemma loop_radar_events:
  "snd (loop_radar to_cm echo s) =
     concat (map (\<lambda>a. step_events to_cm (echo (nat (a - 15))) a) [15..165]) @
     concat (map (\<lambda>a. step_events to_cm (echo (151 + nat (165 - a))) a) (rev [15..165]))"
proof -
  have "fst (up_sweep to_cm echo 15 0 s) = 151" by (simp add: up_sweep_count)
  then show ?thesis
    using up_sweep_events [of to_cm echo 15 0 s]
      down_sweep_events [of to_cm echo 165 151 "fst (snd (up_sweep to_cm echo 15 0 s))"]
    by (simp add: loop_radar_def case_prod_beta)
qed

lemma servo_writes_append: "servo_writes (xs @ ys) = servo_writes xs @ servo_writes ys"
  by (induction xs rule: servo_writes.induct) simp_all

lemma printed_append: "printed (xs @ ys) = printed xs @ printed ys"
  by (induction xs rule: printed.induct) simp_all

lemma servo_writes_steps:
  "servo_writes (concat (map (\<lambda>a. step_events to_cm (f a) a) as)) = as"
  by (induction as) (simp_all add: servo_writes_append step_events_def)

lemma printed_steps:
  "printed (concat (map (\<lambda>a. step_events to_cm (f a) a) as)) =
     concat (map (\<lambda>a. [SInt a, SStr '','', SInt (to_cm (f a)), SStr ''.'']) as)"
  by (induction as) (simp_all add: printed_append step_events_def)

lemma write_or_measure_steps:
  "filter write_or_measure (concat (map (\<lambda>a. step_events to_cm (f a) a) as)) =
     concat (map (\<lambda>a. [myservo_write a, pulseIn echoPin True]) as)"
  by (induction as) (simp_all add: step_events_def)

section \<open>Unfolding the model on concrete passes\<close>

lemmas concrete_defs =
  beat_in_def beat_state_def beat_in_h_def beat_state_h_def first_beat_in_def rest_in_def
  first_beat_in_h_def rest_in_h_def new_client_def first_beat_state_def
  rested_state_def first_beat_state_h_def rested_state_h_def init_pulse_def init_health_def

lemmas model_defs =
  loop_part_000_def loop_part_001_def loop_health_def serial_report_000_def
  serial_report_health_def env_read_def pulse_detection_def sendPulseData_def
  sendGraphData_def sendEnvData_def webSocketEvent_000_def webSocketEvent_001_def
  webSocketEvent_health_def Let_def final_state_def emitted_def reads_pulse_def
  reads_health_def connected_def

lemmas more_defs =
  idle_state_def wrap_beat_in_def wrap_latched_state_def wrapped_state_def latched_state_def hold_connect_in_def
  latched_state_h_def rest_connect_in_h_def env_due_in_h_def

section \<open>The claims\<close>

text \<open>
  C1 (amended). On a pass whose sample is above the threshold while the latch is clear
  and \<^verbatim>\<open>lastBeatTime > 0\<close>, each of the three loops sets \<^verbatim>\<open>BPM\<close> to
  \<open>60000 div (t1 - lastBeatTime)\<close>, computed in unsigned 32-bit arithmetic, where \<open>t1\<close>
  is the value \<^verbatim>\<open>millis()\<close> returns inside the division, and afterwards
  \<^verbatim>\<open>lastBeatTime\<close> is \<open>t2\<close>, the value of the separate call \<^verbatim>\<open>millis()\<close> in the
  assignment. When \<open>t1\<close> equals the old \<^verbatim>\<open>lastBeatTime\<close> the divisor is zero and the
  pass fails. With \<open>t1 = t2 = now_ms\<close> this is the claim as the specification words it.
\<close>

theorem C1_bpm_from_two_clock_reads:
  fixes i :: pulse_in and s :: pulse_state and h :: "'f health_in" and t :: "'f health_state"
  shows
    "(600 < analogRead_A0 i \<and> \<not> pulseDetected s \<and> 0 < lastBeatTime s \<longrightarrow>
        (if millis_bpm i = lastBeatTime s
         then loop_part_000 i s = Inl DivisionByZero \<and> loop_part_001 i s = Inl DivisionByZero
         else (\<exists>s' out. loop_part_000 i s = Inr (s', out) \<and>
                 BPM s' = uint (60000 div (millis_bpm i - lastBeatTime s)) \<and>
                 lastBeatTime s' = millis_beat i) \<and>
              (\<exists>s' out. loop_part_001 i s = Inr (s', out) \<and>
                 BPM s' = uint (60000 div (millis_bpm i - lastBeatTime s)) \<and>
                 lastBeatTime s' = millis_beat i))) \<and>
     (600 < analogRead_A0 h \<and> \<not> pulseDetected t \<and> 0 < lastBeatTime t \<longrightarrow>
        (if millis_bpm h = lastBeatTime t
         then loop_health div100 h t = Inl DivisionByZero
         else (\<exists>t' out. loop_health div100 h t = Inr (t', out) \<and>
                 BPM t' = uint (60000 div (millis_bpm h - lastBeatTime t)) \<and>
                 lastBeatTime t' = millis_beat h)))"
  by (simp add: loop_000_unfold loop_001_unfold loop_health_unfold detect_beat)

text \<open>The theorem at the concrete beat: the loops store 75 and 1001.\<close>

theorem C1_witness:
  "600 < analogRead_A0 beat_in \<and> \<not> pulseDetected beat_state \<and> 0 < lastBeatTime beat_state \<and>
   millis_bpm beat_in \<noteq> lastBeatTime beat_state \<and>
   map_option BPM (final_state (loop_part_000 beat_in beat_state)) = Some 75 \<and>
   map_option lastBeatTime (final_state (loop_part_001 beat_in beat_state)) = Some 1001 \<and>
   600 < analogRead_A0 beat_in_h \<and> \<not> pulseDetected beat_state_h \<and> 0 < lastBeatTime beat_state_h \<and>
   map_option BPM (final_state (loop_health (\<lambda>p. p / 100) beat_in_h beat_state_h)) = Some 75"
  using C1_bpm_from_two_clock_reads [of beat_in beat_state beat_in_h beat_state_h "\<lambda>p. p / 100"]
  by (auto simp: beat_in_def beat_state_def beat_in_h_def beat_state_h_def final_state_def)

text \<open>
  The claim as worded uses one \<open>now_ms\<close> for the division and for the assignment. At
  the concrete beat the two readings differ by a tick: \<^verbatim>\<open>lastBeatTime\<close> becomes 1001, so
  \<open>now_ms\<close> would have to be 1001, but \<^verbatim>\<open>BPM\<close> is 75 and not \<open>60000 div (1001 - 200) = 74\<close>.
\<close>

theorem C1_counterexample:
  "600 < analogRead_A0 beat_in \<and> \<not> pulseDetected beat_state \<and> 0 < lastBeatTime beat_state \<and>
   map_option BPM (final_state (loop_part_000 beat_in beat_state)) = Some 75 \<and>
   map_option lastBeatTime (final_state (loop_part_000 beat_in beat_state)) = Some 1001 \<and>
   uint ((60000 :: 32 word) div (1001 - lastBeatTime beat_state)) = 74"
  by (simp add: beat_in_def beat_state_def final_state_def loop_part_000_def
      serial_report_000_def pulse_detection_def sendPulseData_def Let_def)

text \<open>
  C2 (amended). On a rising-edge pass with \<^verbatim>\<open>lastBeatTime == 0\<close> each loop leaves
  \<^verbatim>\<open>BPM\<close> as it was and stores the clock reading of the assignment in
  \<^verbatim>\<open>lastBeatTime\<close>. At the next rising edge, after any number of passes without one,
  the division is evaluated with that reading (it yields the new \<^verbatim>\<open>BPM\<close>, or fails
  when the clock reads the same value again), provided the stored reading was not 0.
  When the stored reading was 0 the next rising edge is treated as a first beat again
  and \<^verbatim>\<open>BPM\<close> still keeps its value.
\<close>

theorem C2_first_beat:
  fixes i m :: pulse_in and s :: pulse_state
    and hi hm :: "'f health_in" and hs :: "'f health_state"
  shows
   "((600 < analogRead_A0 i \<and> \<not> pulseDetected s \<and> lastBeatTime s = 0 \<longrightarrow>
       (\<exists>s1 o1. loop_part_000 i s = Inr (s1, o1) \<and> BPM s1 = BPM s \<and>
          lastBeatTime s1 = millis_beat i)) \<and>
     (600 < analogRead_A0 i \<and> \<not> pulseDetected s \<and> lastBeatTime s = 0 \<and>
      loop_part_000 i s = Inr (s1, o1) \<and> no_edge loop_part_000 mid s1 \<and>
      run loop_part_000 mid s1 = Inr (s2, o2) \<and> 600 < analogRead_A0 m \<and> \<not> pulseDetected s2 \<longrightarrow>
       (if millis_beat i = 0 then \<exists>s3 o3. loop_part_000 m s2 = Inr (s3, o3) \<and> BPM s3 = BPM s
        else if millis_bpm m = millis_beat i then loop_part_000 m s2 = Inl DivisionByZero
        else \<exists>s3 o3. loop_part_000 m s2 = Inr (s3, o3) \<and>
               BPM s3 = uint (60000 div (millis_bpm m - millis_beat i))))) \<and>
    ((600 < analogRead_A0 i \<and> \<not> pulseDetected s \<and> lastBeatTime s = 0 \<longrightarrow>
       (\<exists>s1 o1. loop_part_001 i s = Inr (s1, o1) \<and> BPM s1 = BPM s \<and>
          lastBeatTime s1 = millis_beat i)) \<and>
     (600 < analogRead_A0 i \<and> \<not> pulseDetected s \<and> lastBeatTime s = 0 \<and>
      loop_part_001 i s = Inr (s1, o1) \<and> no_edge loop_part_001 mid s1 \<and>
      run loop_part_001 mid s1 = Inr (s2, o2) \<and> 600 < analogRead_A0 m \<and> \<not> pulseDetected s2 \<longrightarrow>
       (if millis_beat i = 0 then \<exists>s3 o3. loop_part_001 m s2 = Inr (s3, o3) \<and> BPM s3 = BPM s
        else if millis_bpm m = millis_beat i then loop_part_001 m s2 = Inl DivisionByZero
        else \<exists>s3 o3. loop_part_001 m s2 = Inr (s3, o3) \<and>
               BPM s3 = uint (60000 div (millis_bpm m - millis_beat i))))) \<and>
    ((600 < analogRead_A0 hi \<and> \<not> pulseDetected hs \<and> lastBeatTime hs = 0 \<longrightarrow>
       (\<exists>s1 o1. loop_health div100 hi hs = Inr (s1, o1) \<and> BPM s1 = BPM hs \<and>
          lastBeatTime s1 = millis_beat hi)) \<and>
     (600 < analogRead_A0 hi \<and> \<not> pulseDetected hs \<and> lastBeatTime hs = 0 \<and>
      loop_health div100 hi hs = Inr (hs1, ho1) \<and> no_edge (loop_health div100) hmid hs1 \<and>
      run (loop_health div100) hmid hs1 = Inr (hs2, ho2) \<and> 600 < analogRead_A0 hm \<and>
      \<not> pulseDetected hs2 \<longrightarrow>
       (if millis_beat hi = 0
        then \<exists>s3 o3. loop_health div100 hm hs2 = Inr (s3, o3) \<and> BPM s3 = BPM hs
        else if millis_bpm hm = millis_beat hi then loop_health div100 hm hs2 = Inl DivisionByZero
        else \<exists>s3 o3. loop_health div100 hm hs2 = Inr (s3, o3) \<and>
               BPM s3 = uint (60000 div (millis_bpm hm - millis_beat hi)))))"
  using first_beat_generic [where step = loop_part_000, OF summary_000, of i s s1 o1 mid s2 o2 m]
        first_beat_generic [where step = loop_part_001, OF summary_001, of i s s1 o1 mid s2 o2 m]
        first_beat_generic [where step = "loop_health div100", OF summary_health,
          of hi hs hs1 ho1 hmid hs2 ho2 hm]
  by blast

text \<open>
  A first beat at 100, a low sample at 120, a second beat at 1000:
  \<open>60000 div (1000 - 100) = 66\<close>.
\<close>

theorem C2_witness:
  "600 < analogRead_A0 first_beat_in \<and> \<not> pulseDetected init_pulse \<and> lastBeatTime init_pulse = 0 \<and>
   loop_part_000 first_beat_in init_pulse =
     Inr (first_beat_state,
          [broadcastTXT [(''type'', JStr ''pulse''), (''value'', JInt 700), (''bpm'', JInt 0)],
           delay 10]) \<and>
   no_edge loop_part_000 [rest_in] first_beat_state \<and>
   run loop_part_000 [rest_in] first_beat_state = Inr (rested_state, [delay 10]) \<and>
   600 < analogRead_A0 beat_in \<and> \<not> pulseDetected rested_state \<and>
   millis_beat first_beat_in \<noteq> 0 \<and> millis_bpm beat_in \<noteq> millis_beat first_beat_in \<and>
   map_option BPM (final_state (loop_part_000 beat_in rested_state)) = Some 66 \<and>
   600 < analogRead_A0 first_beat_in_h \<and> \<not> pulseDetected (init_health (0::real)) \<and>
   lastBeatTime (init_health (0::real)) = 0 \<and>
   loop_health (\<lambda>p. p / 100) first_beat_in_h (init_health 0) =
     Inr (first_beat_state_h,
          [broadcastTXT [(''type'', JStr ''pulse''), (''value'', JInt 700), (''bpm'', JInt 0)],
           delay 10]) \<and>
   no_edge (loop_health (\<lambda>p. p / 100)) [rest_in_h] first_beat_state_h \<and>
   run (loop_health (\<lambda>p. p / 100)) [rest_in_h] first_beat_state_h =
     Inr (rested_state_h, [delay 10]) \<and>
   600 < analogRead_A0 beat_in_h \<and> \<not> pulseDetected rested_state_h \<and>
   map_option BPM (final_state (loop_health (\<lambda>p. p / 100) beat_in_h rested_state_h)) = Some 66"
  using C2_first_beat [where i = first_beat_in and s = init_pulse and ?s1.0 = first_beat_state
      and ?o1.0 = "[broadcastTXT [(''type'', JStr ''pulse''), (''value'', JInt 700),
                     (''bpm'', JInt 0)], delay 10]"
      and mid = "[rest_in]" and ?s2.0 = rested_state and ?o2.0 = "[delay 10]" and m = beat_in
      and ?div100.0 = "\<lambda>p. p / 100" and hi = first_beat_in_h and hs = "init_health 0"
      and ?hs1.0 = first_beat_state_h
      and ?ho1.0 = "[broadcastTXT [(''type'', JStr ''pulse''), (''value'', JInt 700),
                     (''bpm'', JInt 0)], delay 10]"
      and hmid = "[rest_in_h]" and ?hs2.0 = rested_state_h and ?ho2.0 = "[delay 10]"
      and hm = beat_in_h]
  by (auto simp: concrete_defs model_defs)

text \<open>
  The claim as worded promises a \<^verbatim>\<open>BPM\<close> at the very next rising edge. When the first
  beat falls on the wrap of the millisecond counter, \<^verbatim>\<open>millis()\<close> returns 0, the guard
  \<^verbatim>\<open>lastBeatTime > 0\<close> is still false at the next rising edge (clock 1000), and \<^verbatim>\<open>BPM\<close>
  stays 0: nothing is computed and no \<^verbatim>\<open>Beat detected!\<close> line is printed.
\<close>

theorem C2_counterexample:
  "600 < analogRead_A0 wrap_beat_in \<and> \<not> pulseDetected idle_state \<and> lastBeatTime idle_state = 0 \<and>
   loop_part_000 wrap_beat_in idle_state =
     Inr (wrap_latched_state,
          [broadcastTXT [(''type'', JStr ''pulse''), (''value'', JInt 700), (''bpm'', JInt 0)],
           delay 10]) \<and>
   no_edge loop_part_000 [rest_in] wrap_latched_state \<and>
   final_state (run loop_part_000 [rest_in] wrap_latched_state) = Some wrapped_state \<and>
   600 < analogRead_A0 beat_in \<and> \<not> pulseDetected wrapped_state \<and>
   loop_part_000 beat_in wrapped_state =
     Inr (\<lparr>pulseValue = 700, BPM = 0, pulseDetected = True, lastBeatTime = 1001,
           lastSerialPrintTime = 1000\<rparr>,
          [Serial_print (SStr ''Pulse Value: ''), Serial_print (SInt 700),
           Serial_print (SStr '' | BPM: ''), Serial_println (SInt 0),
           broadcastTXT [(''type'', JStr ''pulse''), (''value'', JInt 700), (''bpm'', JInt 0)],
           delay 10])"
  by (simp add: concrete_defs more_defs model_defs)







text \<open>
  C6. What a pass of the radar loop prints, for any echoes and any conversion: for
  each step of the upward sweep and then of the downward sweep, the angle, a comma, the
  distance converted from the echo measured in that step, and a full stop.
\<close>

theorem C6_radar_output:
  "printed (snd (loop_radar to_cm echo s)) =
     concat (map (\<lambda>a. [SInt a, SStr '','', SInt (to_cm (echo (nat (a - 15)))), SStr ''.''])
               [15..165]) @
     concat (map (\<lambda>a. [SInt a, SStr '','', SInt (to_cm (echo (151 + nat (165 - a)))), SStr ''.''])
               (rev [15..165]))"
  unfolding loop_radar_events printed_append printed_steps by (rule refl)

text \<open>
  C7. A pass of the health monitor that completes performs the environmental read
  exactly when \<^verbatim>\<open>millis() - lastEnvReadTime > 2000\<close> (unsigned 32-bit): then
  \<^verbatim>\<open>temperature\<close> and \<^verbatim>\<open>pressure\<close> take the new readings, \<^verbatim>\<open>lastEnvReadTime\<close> the
  clock, and an environment event with the new readings is broadcast. On every other
  pass the three variables are unchanged and the only environment events are the ones
  the connection handler sends, with the unchanged values.
\<close>

theorem C7_environment_frame:
  fixes h :: "'f health_in" and t :: "'f health_state"
  shows
   "loop_health div100 h t = Inr (t', out) \<longrightarrow>
      (if 2000 < millis_env h - lastEnvReadTime t
       then temperature t' = readTemperature h \<and> pressure t' = div100 (readPressure h) \<and>
            lastEnvReadTime t' = millis_env_set h \<and>
            filter (is_broadcast_of ''environment'') out =
              concat (map (\<lambda>c. sendEnvData t) (connected h)) @
              [broadcastTXT [(''type'', JStr ''environment''),
                             (''temp'', JFloat (readTemperature h)),
                             (''pressure'', JFloat (div100 (readPressure h)))]]
       else temperature t' = temperature t \<and> pressure t' = pressure t \<and>
            lastEnvReadTime t' = lastEnvReadTime t \<and>
            filter (is_broadcast_of ''environment'') out =
              concat (map (\<lambda>c. sendEnvData t) (connected h)))"
proof
  assume "loop_health div100 h t = Inr (t', out)"
  then obtain pd where
    pd: "pulse_detection h (before_detection div100 h t) = Inr (t', pd)" and
    out: "out = concat (map (\<lambda>c. webSocketEvent_health c t) (ws_events h)) @
           snd (env_read div100 h (t\<lparr>pulseValue := analogRead_A0 h\<rparr>)) @
           snd (serial_report_health h (fst (env_read div100 h (t\<lparr>pulseValue := analogRead_A0 h\<rparr>)))) @
           pd @ [delay 10]"
    by (rule loop_health_Inr)
  from detection_keeps_env [OF pd] have
    f: "temperature t' = temperature (before_detection div100 h t)"
       "pressure t' = pressure (before_detection div100 h t)"
       "lastEnvReadTime t' = lastEnvReadTime (before_detection div100 h t)"
    by simp_all
  have e: "filter (is_broadcast_of ''environment'') out =
             concat (map (\<lambda>c. sendEnvData t) (connected h)) @
             (if 2000 < millis_env h - lastEnvReadTime t
              then sendEnvData (fst (env_read div100 h (t\<lparr>pulseValue := analogRead_A0 h\<rparr>)))
              else [])"
    by (simp add: out handler_health_envs env_read_broadcasts report_health_no_broadcast
          detection_envs [OF pd] connected_def)
  show "if 2000 < millis_env h - lastEnvReadTime t
       then temperature t' = readTemperature h \<and> pressure t' = div100 (readPressure h) \<and>
            lastEnvReadTime t' = millis_env_set h \<and>
            filter (is_broadcast_of ''environment'') out =
              concat (map (\<lambda>c. sendEnvData t) (connected h)) @
              [broadcastTXT [(''type'', JStr ''environment''),
                             (''temp'', JFloat (readTemperature h)),
                             (''pressure'', JFloat (div100 (readPressure h)))]]
       else temperature t' = temperature t \<and> pressure t' = pressure t \<and>
            lastEnvReadTime t' = lastEnvReadTime t \<and>
            filter (is_broadcast_of ''environment'') out =
              concat (map (\<lambda>c. sendEnvData t) (connected h))"
    by (simp add: f e before_detection_env sendEnvData_def env_read_fields)
qed

text \<open>A pass 2100 ms after the last read, and a pass 511 ms after it.\<close>

theorem C7_witness:
  "2000 < millis_env env_due_in_h - lastEnvReadTime latched_state_h \<and>
   loop_health (\<lambda>p. p / 100) env_due_in_h latched_state_h =
     Inr (\<lparr>pulseValue = 300, BPM = 75, pulseDetected = False, lastBeatTime = 1001,
           lastSerialPrintTime = 2600, temperature = 36.5, pressure = 1013.25,
           lastEnvReadTime = 2600\<rparr>,
          [broadcastTXT [(''type'', JStr ''environment''), (''temp'', JFloat 36.5),
                         (''pressure'', JFloat 1013.25)],
           Serial_print (SStr ''Pulse: ''), Serial_print (SInt 300),
           Serial_print (SStr '' | BPM: ''), Serial_print (SInt 75),
           Serial_print (SStr '' | Temp: ''), Serial_print (SFlt 36.5),
           Serial_print (SStr ([CHR 0xC2, CHR 0xB0] @ ''C | Pressure: '')),
           Serial_print (SFlt 1013.25), Serial_println (SStr ''hPa''),
           delay 10]) \<and>
   \<not> 2000 < millis_env rest_connect_in_h - lastEnvReadTime latched_state_h \<and>
   map_option temperature
     (final_state (loop_health (\<lambda>p. p / 100) rest_connect_in_h latched_state_h)) = Some 36 \<and>
   map_option pressure
     (final_state (loop_health (\<lambda>p. p / 100) rest_connect_in_h latched_state_h)) = Some 1013"
  using C7_environment_frame [of "\<lambda>p. p / 100" env_due_in_h latched_state_h
     "\<lparr>pulseValue = 300, BPM = 75, pulseDetected = False, lastBeatTime = 1001,
           lastSerialPrintTime = 2600, temperature = 36.5, pressure = 1013.25,
           lastEnvReadTime = 2600\<rparr>"]
  by (auto simp: concrete_defs more_defs model_defs)

text \<open>
  C8. For runs from the initial state: whenever a pass evaluates the division (sample
  above the threshold, latch clear, \<^verbatim>\<open>lastBeatTime > 0\<close>), \<^verbatim>\<open>lastBeatTime\<close> is the
  reading stored by an earlier rising-edge pass, and at least one completed pass with a
  sample not above the threshold lies between the two; if every clock reading of a pass
  is greater than every reading of the pass before it, the divisor is not zero, and no
  run ever fails.
\<close>

theorem C8_division_safety:
  fixes ins :: "pulse_in list" and hins :: "'f health_in list"
  shows
  "((clock_advances reads_pulse ins \<longrightarrow> (\<exists>s out. run loop_part_000 ins init_pulse = Inr (s, out))) \<and>
    (run loop_part_000 ins init_pulse = Inr (s, out) \<and> 600 < analogRead_A0 m \<and>
     \<not> pulseDetected s \<and> 0 < lastBeatTime s \<longrightarrow>
       (\<exists>p k mid sk ok. ins = p @ k # mid \<and> run loop_part_000 p init_pulse = Inr (sk, ok) \<and>
          600 < analogRead_A0 k \<and> \<not> pulseDetected sk \<and> lastBeatTime s = millis_beat k \<and>
          (\<exists>j \<in> set mid. analogRead_A0 j \<le> 600)) \<and>
       (clock_advances reads_pulse (ins @ [m]) \<longrightarrow> millis_bpm m - lastBeatTime s \<noteq> 0))) \<and>
   ((clock_advances reads_pulse ins \<longrightarrow> (\<exists>s out. run loop_part_001 ins init_pulse = Inr (s, out))) \<and>
    (run loop_part_001 ins init_pulse = Inr (s, out) \<and> 600 < analogRead_A0 m \<and>
     \<not> pulseDetected s \<and> 0 < lastBeatTime s \<longrightarrow>
       (\<exists>p k mid sk ok. ins = p @ k # mid \<and> run loop_part_001 p init_pulse = Inr (sk, ok) \<and>
          600 < analogRead_A0 k \<and> \<not> pulseDetected sk \<and> lastBeatTime s = millis_beat k \<and>
          (\<exists>j \<in> set mid. analogRead_A0 j \<le> 600)) \<and>
       (clock_advances reads_pulse (ins @ [m]) \<longrightarrow> millis_bpm m - lastBeatTime s \<noteq> 0))) \<and>
   ((clock_advances reads_health hins \<longrightarrow>
       (\<exists>s out. run (loop_health div100) hins (init_health z) = Inr (s, out))) \<and>
    (run (loop_health div100) hins (init_health z) = Inr (hs, hout) \<and> 600 < analogRead_A0 hm \<and>
     \<not> pulseDetected hs \<and> 0 < lastBeatTime hs \<longrightarrow>
       (\<exists>p k mid sk ok. hins = p @ k # mid \<and>
          run (loop_health div100) p (init_health z) = Inr (sk, ok) \<and>
          600 < analogRead_A0 k \<and> \<not> pulseDetected sk \<and> lastBeatTime hs = millis_beat k \<and>
          (\<exists>j \<in> set mid. analogRead_A0 j \<le> 600)) \<and>
       (clock_advances reads_health (hins @ [hm]) \<longrightarrow> millis_bpm hm - lastBeatTime hs \<noteq> 0)))"
proof (intro conjI)
  have z0: "lastBeatTime init_pulse = 0" by (simp add: init_pulse_def)
  have zh: "lastBeatTime (init_health z) = 0" by (simp add: init_health_def)
  note d0 = division_safe [where step = loop_part_000 and ins = ins and s = s and out = out
      and m = m, OF summary_000 reads_pulse_members z0]
  note d1 = division_safe [where step = loop_part_001 and ins = ins and s = s and out = out
      and m = m, OF summary_001 reads_pulse_members z0]
  note dh = division_safe [where step = "loop_health div100" and ins = hins and s = hs
      and out = hout and m = hm, OF summary_health reads_health_members zh]
  show "clock_advances reads_pulse ins \<longrightarrow> (\<exists>s out. run loop_part_000 ins init_pulse = Inr (s, out))"
    using d0 by (rule conjunct1)
  show "run loop_part_000 ins init_pulse = Inr (s, out) \<and> 600 < analogRead_A0 m \<and>
     \<not> pulseDetected s \<and> 0 < lastBeatTime s \<longrightarrow>
       (\<exists>p k mid sk ok. ins = p @ k # mid \<and> run loop_part_000 p init_pulse = Inr (sk, ok) \<and>
          600 < analogRead_A0 k \<and> \<not> pulseDetected sk \<and> lastBeatTime s = millis_beat k \<and>
          (\<exists>j \<in> set mid. analogRead_A0 j \<le> 600)) \<and>
       (clock_advances reads_pulse (ins @ [m]) \<longrightarrow> millis_bpm m - lastBeatTime s \<noteq> 0)"
    using d0 by (rule conjunct2)
  show "clock_advances reads_pulse ins \<longrightarrow> (\<exists>s out. run loop_part_001 ins init_pulse = Inr (s, out))"
    using d1 by (rule conjunct1)
  show "run loop_part_001 ins init_pulse = Inr (s, out) \<and> 600 < analogRead_A0 m \<and>
     \<not> pulseDetected s \<and> 0 < lastBeatTime s \<longrightarrow>
       (\<exists>p k mid sk ok. ins = p @ k # mid \<and> run loop_part_001 p init_pulse = Inr (sk, ok) \<and>
          600 < analogRead_A0 k \<and> \<not> pulseDetected sk \<and> lastBeatTime s = millis_beat k \<and>
          (\<exists>j \<in> set mid. analogRead_A0 j \<le> 600)) \<and>
       (clock_advances reads_pulse (ins @ [m]) \<longrightarrow> millis_bpm m - lastBeatTime s \<noteq> 0)"
    using d1 by (rule conjunct2)
  show "clock_advances reads_health hins \<longrightarrow>
       (\<exists>s out. run (loop_health div100) hins (init_health z) = Inr (s, out))"
    using dh by (rule conjunct1)
  show "run (loop_health div100) hins (init_health z) = Inr (hs, hout) \<and> 600 < analogRead_A0 hm \<and>
     \<not> pulseDetected hs \<and> 0 < lastBeatTime hs \<longrightarrow>
       (\<exists>p k mid sk ok. hins = p @ k # mid \<and>
          run (loop_health div100) p (init_health z) = Inr (sk, ok) \<and>
          600 < analogRead_A0 k \<and> \<not> pulseDetected sk \<and> lastBeatTime hs = millis_beat k \<and>
          (\<exists>j \<in> set mid. analogRead_A0 j \<le> 600)) \<and>
       (clock_advances reads_health (hins @ [hm]) \<longrightarrow> millis_bpm hm - lastBeatTime hs \<noteq> 0)"
    using dh by (rule conjunct2)
qed

text \<open>Beat at 100, low sample at 120, beat at 1000: the divisor is 900.\<close>

theorem C8_witness:
  "clock_advances reads_pulse [first_beat_in, rest_in, beat_in] \<and>
   run loop_part_000 [first_beat_in, rest_in] init_pulse =
     Inr (rested_state,
          [broadcastTXT [(''type'', JStr ''pulse''), (''value'', JInt 700), (''bpm'', JInt 0)],
           delay 10, delay 10]) \<and>
   600 < analogRead_A0 beat_in \<and> \<not> pulseDetected rested_state \<and>
   0 < lastBeatTime rested_state \<and>
   millis_bpm beat_in - lastBeatTime rested_state \<noteq> 0 \<and>
   final_state (run loop_part_000 [first_beat_in, rest_in, beat_in] init_pulse) \<noteq> None \<and>
   clock_advances reads_health [first_beat_in_h, rest_in_h, beat_in_h] \<and>
   run (loop_health (\<lambda>p. p / 100)) [first_beat_in_h, rest_in_h] (init_health 0) =
     Inr (rested_state_h,
          [broadcastTXT [(''type'', JStr ''pulse''), (''value'', JInt 700), (''bpm'', JInt 0)],
           delay 10, delay 10]) \<and>
   600 < analogRead_A0 beat_in_h \<and> \<not> pulseDetected rested_state_h \<and>
   0 < lastBeatTime rested_state_h \<and>
   millis_bpm beat_in_h - lastBeatTime rested_state_h \<noteq> 0 \<and>
   final_state
     (run (loop_health (\<lambda>p. p / 100)) [first_beat_in_h, rest_in_h, beat_in_h] (init_health 0))
     \<noteq> None"
  using C8_division_safety [where ins = "[first_beat_in, rest_in]" and s = rested_state
      and out = "[broadcastTXT [(''type'', JStr ''pulse''), (''value'', JInt 700),
                    (''bpm'', JInt 0)], delay 10, delay 10]"
      and m = beat_in and hins = "[first_beat_in_h, rest_in_h]" and hs = rested_state_h
      and hout = "[broadcastTXT [(''type'', JStr ''pulse''), (''value'', JInt 700),
                    (''bpm'', JInt 0)], delay 10, delay 10]"
      and hm = beat_in_h and ?div100.0 = "\<lambda>p. p / 100" and z = 0]
    C8_division_safety [where ins = "[first_beat_in, rest_in, beat_in]"
      and hins = "[first_beat_in_h, rest_in_h, beat_in_h]" and ?div100.0 = "\<lambda>p. p / 100"
      and z = "0::real"]
  by (auto simp: concrete_defs model_defs)

text \<open>
  C9. In a pass of the radar loop the angles written to the servo are 15 up to 165 and
  then 165 down to 15; all of them lie between 15 and 165; and among servo writes and
  echo measurements, every write is followed by exactly one measurement.
\<close>

theorem C9_servo_sweep:
  "servo_writes (snd (loop_radar to_cm echo s)) = [15..165] @ rev [15..165] \<and>
   (\<forall>a \<in> set (servo_writes (snd (loop_radar to_cm echo s))). 15 \<le> a \<and> a \<le> 165) \<and>
   filter write_or_measure (snd (loop_radar to_cm echo s)) =
     concat (map (\<lambda>a. [myservo_write a, pulseIn echoPin True]) ([15..165] @ rev [15..165]))"
proof -
  have "\<forall>a \<in> set ([15..165] @ rev [15..165]). 15 \<le> a \<and> a \<le> (165::int)"
    by (simp only: set_append set_rev set_upto) auto
  then show ?thesis
    unfolding loop_radar_events servo_writes_append servo_writes_steps filter_append
      write_or_measure_steps concat_append map_append
    by simp
qed

text \<open>Both ends of the interval are written, and the pass starts at 15.\<close>

theorem C9_witness:
  "15 \<in> set (servo_writes (snd (loop_radar bench_cm bench_echo \<lparr>duration = 0, distance = 0\<rparr>))) \<and>
   165 \<in> set (servo_writes (snd (loop_radar bench_cm bench_echo \<lparr>duration = 0, distance = 0\<rparr>))) \<and>
   hd (servo_writes (snd (loop_radar bench_cm bench_echo \<lparr>duration = 0, distance = 0\<rparr>))) = 15"
  using C9_servo_sweep [of bench_cm bench_echo "\<lparr>duration = 0, distance = 0\<rparr>"]
  by (simp add: upto_rec1 [of 15 165])

text \<open>
  C10. For a callback of type \<^verbatim>\<open>WStype_CONNECTED\<close> the handler logs the connection and
  sends the current \<^verbatim>\<open>pulseValue\<close> and \<^verbatim>\<open>BPM\<close>: \<^verbatim>\<open>part_000\<close> as an init message to
  the new client, \<^verbatim>\<open>part_001\<close> as a pulse broadcast, the health monitor as a pulse
  broadcast followed by an environment broadcast with the current temperature and
  pressure. In a pass, what the handlers emit comes before everything the rest of the
  pass emits.
\<close>

theorem C10_snapshot_on_connect:
  fixes i :: pulse_in and s :: pulse_state and h :: "'f health_in" and t :: "'f health_state"
  shows
   "(wstype c = WStype_CONNECTED \<and> remoteIP c = (ip0, ip1, ip2, ip3) \<longrightarrow>
       webSocketEvent_000 c s =
         [Serial_printf (''[%u] Connection from %d.%d.%d.%d'' @ [CHR 0x0A])
            [SInt (uint (num c)), SInt ip0, SInt ip1, SInt ip2, SInt ip3],
          sendTXT (num c)
            [(''type'', JStr ''init''), (''bpm'', JInt (BPM s)), (''value'', JInt (pulseValue s))]] \<and>
       webSocketEvent_001 c s =
         [Serial_printf (''[%u] Connection from %d.%d.%d.%d'' @ [CHR 0x0A])
            [SInt (uint (num c)), SInt ip0, SInt ip1, SInt ip2, SInt ip3],
          broadcastTXT
            [(''type'', JStr ''pulse''), (''value'', JInt (pulseValue s)), (''bpm'', JInt (BPM s))]] \<and>
       webSocketEvent_health c t =
         [Serial_printf (''[%u] Connection from %d.%d.%d.%d'' @ [CHR 0x0A])
            [SInt (uint (num c)), SInt ip0, SInt ip1, SInt ip2, SInt ip3],
          broadcastTXT
            [(''type'', JStr ''pulse''), (''value'', JInt (pulseValue t)), (''bpm'', JInt (BPM t))],
          broadcastTXT
            [(''type'', JStr ''environment''), (''temp'', JFloat (temperature t)),
             (''pressure'', JFloat (pressure t))]]) \<and>
    (loop_part_000 i s = Inr (s0, out0) \<longrightarrow>
       out0 = concat (map (\<lambda>c. webSocketEvent_000 c s) (ws_events i)) @
              emitted (loop_part_000 (i\<lparr>ws_events := []\<rparr>) s)) \<and>
    (loop_part_001 i s = Inr (s1, out1) \<longrightarrow>
       out1 = concat (map (\<lambda>c. webSocketEvent_001 c s) (ws_events i)) @
              emitted (loop_part_001 (i\<lparr>ws_events := []\<rparr>) s)) \<and>
    (loop_health div100 h t = Inr (t', out) \<longrightarrow>
       out = concat (map (\<lambda>c. webSocketEvent_health c t) (ws_events h)) @
             emitted (loop_health div100 (h\<lparr>ws_events := []\<rparr>) t))"
proof (intro conjI impI)
  assume "loop_part_000 i s = Inr (s0, out0)"
  then show "out0 = concat (map (\<lambda>c. webSocketEvent_000 c s) (ws_events i)) @
              emitted (loop_part_000 (i\<lparr>ws_events := []\<rparr>) s)"
    by (auto simp: loop_part_000_def emitted_def serial_report_000_def pulse_detection_def
          Let_def split: sum.splits if_splits)
next
  assume "loop_part_001 i s = Inr (s1, out1)"
  then show "out1 = concat (map (\<lambda>c. webSocketEvent_001 c s) (ws_events i)) @
              emitted (loop_part_001 (i\<lparr>ws_events := []\<rparr>) s)"
    by (auto simp: loop_part_001_def emitted_def serial_report_000_def pulse_detection_def
          Let_def split: sum.splits if_splits)
next
  assume "loop_health div100 h t = Inr (t', out)"
  then show "out = concat (map (\<lambda>c. webSocketEvent_health c t) (ws_events h)) @
             emitted (loop_health div100 (h\<lparr>ws_events := []\<rparr>) t)"
    by (auto simp: loop_health_def emitted_def serial_report_health_def env_read_def
          pulse_detection_def Let_def split: sum.splits if_splits)
qed (simp_all add: webSocketEvent_000_def webSocketEvent_001_def webSocketEvent_health_def
       sendPulseData_def sendEnvData_def)

text \<open>Client 0 connects while the latch is set.\<close>

theorem C10_witness:
  "wstype new_client = WStype_CONNECTED \<and> remoteIP new_client = (192, 168, 4, 2) \<and>
   loop_part_000 hold_connect_in latched_state =
     Inr (latched_state,
          [Serial_printf (''[%u] Connection from %d.%d.%d.%d'' @ [CHR 0x0A])
             [SInt 0, SInt 192, SInt 168, SInt 4, SInt 2],
           sendTXT 0 [(''type'', JStr ''init''), (''bpm'', JInt 75), (''value'', JInt 700)],
           delay 10]) \<and>
   emitted (loop_part_000 (hold_connect_in\<lparr>ws_events := []\<rparr>) latched_state) = [delay 10] \<and>
   emitted (loop_health (\<lambda>p. p / 100) rest_connect_in_h latched_state_h) =
     [Serial_printf (''[%u] Connection from %d.%d.%d.%d'' @ [CHR 0x0A])
        [SInt 0, SInt 192, SInt 168, SInt 4, SInt 2],
      broadcastTXT [(''type'', JStr ''pulse''), (''value'', JInt 700), (''bpm'', JInt 75)],
      broadcastTXT [(''type'', JStr ''environment''), (''temp'', JFloat 36),
                    (''pressure'', JFloat 1013)],
      delay 10]"
  using C10_snapshot_on_connect [of new_client 192 168 4 2 latched_state latched_state_h
     hold_connect_in latched_state
     "[Serial_printf (''[%u] Connection from %d.%d.%d.%d'' @ [CHR 0x0A])
             [SInt 0, SInt 192, SInt 168, SInt 4, SInt 2],
           sendTXT 0 [(''type'', JStr ''init''), (''bpm'', JInt 75), (''value'', JInt 700)],
           delay 10]"]
  by (auto simp: concrete_defs more_defs model_defs)

end
